theory Spec2Isabelle
  imports Main "HOL-Library.AList"
begin

section \<open>Texts and the library functions the services call\<close>

text \<open>
  A Go string is a sequence of bytes, here a \<open>string\<close> (a list of 8-bit characters).
  The functions of this section stand for the functions of Go's standard library that
  \<^verbatim>\<open>services/samba.go\<close> and \<^verbatim>\<open>services/config.go\<close> call; they act on bytes, and where
  the library decodes UTF-8 the encodings are written out.
\<close>

abbreviation LF :: char where "LF \<equiv> CHR 0x0A"
abbreviation CR :: char where "CR \<equiv> CHR 0x0D"

definition HasPrefix :: "string \<Rightarrow> string \<Rightarrow> bool" where
  "HasPrefix s p = (take (length p) s = p)"

definition HasSuffix :: "string \<Rightarrow> string \<Rightarrow> bool" where
  "HasSuffix s p = (drop (length s - length p) s = p)"

definition TrimPrefix :: "string \<Rightarrow> string \<Rightarrow> string" where
  "TrimPrefix s p = (if HasPrefix s p then drop (length p) s else s)"

fun Contains :: "string \<Rightarrow> string \<Rightarrow> bool" where
  "Contains [] sub = (sub = [])"
| "Contains (c # s) sub = (HasPrefix (c # s) sub \<or> Contains s sub)"

text \<open>\<^verbatim>\<open>strings.Join\<close>.\<close>

fun Join :: "string list \<Rightarrow> string \<Rightarrow> string" where
  "Join [] sep = []"
| "Join [x] sep = x"
| "Join (x # y # xs) sep = x @ sep @ Join (y # xs) sep"

text \<open>\<^verbatim>\<open>strings.Split\<close> at a separator of one byte.\<close>

fun split_on :: "char \<Rightarrow> string \<Rightarrow> string list" where
  "split_on d [] = [[]]"
| "split_on d (c # s) =
     (if c = d then [] # split_on d s
      else (case split_on d s of [] \<Rightarrow> [[c]] | l # ls \<Rightarrow> (c # l) # ls))"

text \<open>
  \<^verbatim>\<open>unicode.IsSpace\<close>: the UTF-8 encodings of the white space characters, U+0009 to
  U+000D, U+0020, U+0085, U+00A0, U+1680, U+2000 to U+200A, U+2028, U+2029, U+202F,
  U+205F and U+3000. Every encoding starts with a byte that begins a character, so a
  text starts (or ends) with a white space character exactly when it starts (or ends)
  with one of these byte sequences.
\<close>

definition space_encodings :: "string list" where
  "space_encodings =
    [[CHR 0x09], [CHR 0x0A], [CHR 0x0B], [CHR 0x0C], [CHR 0x0D], [CHR 0x20],
     [CHR 0xC2, CHR 0x85], [CHR 0xC2, CHR 0xA0],
     [CHR 0xE1, CHR 0x9A, CHR 0x80],
     [CHR 0xE2, CHR 0x80, CHR 0x80], [CHR 0xE2, CHR 0x80, CHR 0x81],
     [CHR 0xE2, CHR 0x80, CHR 0x82], [CHR 0xE2, CHR 0x80, CHR 0x83],
     [CHR 0xE2, CHR 0x80, CHR 0x84], [CHR 0xE2, CHR 0x80, CHR 0x85],
     [CHR 0xE2, CHR 0x80, CHR 0x86], [CHR 0xE2, CHR 0x80, CHR 0x87],
     [CHR 0xE2, CHR 0x80, CHR 0x88], [CHR 0xE2, CHR 0x80, CHR 0x89],
     [CHR 0xE2, CHR 0x80, CHR 0x8A],
     [CHR 0xE2, CHR 0x80, CHR 0xA8], [CHR 0xE2, CHR 0x80, CHR 0xA9],
     [CHR 0xE2, CHR 0x80, CHR 0xAF], [CHR 0xE2, CHR 0x81, CHR 0x9F],
     [CHR 0xE3, CHR 0x80, CHR 0x80]]"

text \<open>The number of bytes of the white space character a text starts with, 0 if none.\<close>

definition space_width :: "string \<Rightarrow> nat" where
  "space_width s =
     (case find (\<lambda>e. HasPrefix s e) space_encodings of None \<Rightarrow> 0 | Some e \<Rightarrow> length e)"

text \<open>The same for the end of a text, which is given reversed.\<close>

definition space_width_rev :: "string \<Rightarrow> nat" where
  "space_width_rev r =
     (case find (\<lambda>e. HasPrefix r (rev e)) space_encodings of None \<Rightarrow> 0 | Some e \<Rightarrow> length e)"

fun TrimLeftSpace :: "string \<Rightarrow> string" where
  "TrimLeftSpace [] = []"
| "TrimLeftSpace (c # s) =
     (if space_width (c # s) = 0 then c # s
      else TrimLeftSpace (drop (space_width (c # s) - 1) s))"

fun TrimRightSpace_rev :: "string \<Rightarrow> string" where
  "TrimRightSpace_rev [] = []"
| "TrimRightSpace_rev (c # r) =
     (if space_width_rev (c # r) = 0 then c # r
      else TrimRightSpace_rev (drop (space_width_rev (c # r) - 1) r))"

text \<open>\<^verbatim>\<open>strings.TrimSpace\<close>.\<close>

definition TrimSpace :: "string \<Rightarrow> string" where
  "TrimSpace s = rev (TrimRightSpace_rev (rev (TrimLeftSpace s)))"

text \<open>\<^verbatim>\<open>strings.Trim(s, cutset)\<close> for a cutset of ASCII characters.\<close>

definition Trim :: "string \<Rightarrow> string \<Rightarrow> string" where
  "Trim s cutset =
     rev (dropWhile (\<lambda>c. c \<in> set cutset) (rev (dropWhile (\<lambda>c. c \<in> set cutset) s)))"

text \<open>\<^verbatim>\<open>strings.Fields\<close>: the maximal runs of characters that are not white space.\<close>

fun fields_from :: "string \<Rightarrow> string \<Rightarrow> string list" where
  "fields_from cur [] = (if cur = [] then [] else [cur])"
| "fields_from cur (c # s) =
     (if space_width (c # s) = 0 then fields_from (cur @ [c]) s
      else (if cur = [] then [] else [cur]) @ fields_from [] (drop (space_width (c # s) - 1) s))"

definition Fields :: "string \<Rightarrow> string list" where
  "Fields s = fields_from [] s"

text \<open>
  \<^verbatim>\<open>strings.SplitN(s, "=", 2)\<close>: \<open>None\<close> stands for the one-element result (no \<open>=\<close>
  in \<open>s\<close>), \<open>Some (a, b)\<close> for the two parts around the first \<open>=\<close>.
\<close>

definition SplitN2 :: "string \<Rightarrow> (string \<times> string) option" where
  "SplitN2 s =
     (if CHR ''='' \<in> set s
      then Some (takeWhile (\<lambda>c. c \<noteq> CHR ''='') s, tl (dropWhile (\<lambda>c. c \<noteq> CHR ''='') s))
      else None)"

text \<open>\<^verbatim>\<open>strings.ReplaceAll(s, " ", "")\<close>.\<close>

definition remove_spaces :: "string \<Rightarrow> string" where
  "remove_spaces s = filter (\<lambda>c. c \<noteq> CHR '' '') s"

text \<open>
  \<^verbatim>\<open>strings.ToLower\<close>. The program compares the result with ASCII words only
  (\<open>global\<close>, \<open>homes\<close> and the known keys). The ASCII capitals are folded, and so are
  the two characters beyond ASCII whose lower case is an ASCII letter: U+212A (Kelvin
  sign, bytes E2 84 AA) to \<open>k\<close> and U+0130 (bytes C4 B0) to \<open>i\<close>. Every other
  character beyond ASCII is kept as it is: the library replaces it by a character that
  is beyond ASCII as well, so no comparison with an ASCII word tells the difference.
\<close>

definition lower_byte :: "char \<Rightarrow> char" where
  "lower_byte c =
     (case map_of (zip ''ABCDEFGHIJKLMNOPQRSTUVWXYZ'' ''abcdefghijklmnopqrstuvwxyz'') c of
        None \<Rightarrow> c | Some l \<Rightarrow> l)"

fun ToLower :: "string \<Rightarrow> string" where
  "ToLower (a # b # c # s) =
     (if a = CHR 0xE2 \<and> b = CHR 0x84 \<and> c = CHR 0xAA then CHR ''k'' # ToLower s
      else if a = CHR 0xC4 \<and> b = CHR 0xB0 then CHR ''i'' # ToLower (c # s)
      else lower_byte a # ToLower (b # c # s))"
| "ToLower [a, b] =
     (if a = CHR 0xC4 \<and> b = CHR 0xB0 then [CHR ''i''] else [lower_byte a, lower_byte b])"
| "ToLower [a] = [lower_byte a]"
| "ToLower [] = []"

section \<open>Paths\<close>

text \<open>
  \<^verbatim>\<open>filepath.Clean\<close> on Unix, where the separator is the slash: the loop of the
  library over the path, with the output written so far and the index \<open>dotdot\<close> below
  which a \<open>..\<close> element must not remove anything.
\<close>

abbreviation sep :: char where "sep \<equiv> CHR ''/''"

fun backtrack :: "nat \<Rightarrow> string \<Rightarrow> nat \<Rightarrow> nat" where
  "backtrack dotdot out 0 = 0"
| "backtrack dotdot out (Suc w) =
     (if Suc w > dotdot \<and> out ! Suc w \<noteq> sep then backtrack dotdot out w else Suc w)"

function clean_loop :: "bool \<Rightarrow> string \<Rightarrow> nat \<Rightarrow> string \<Rightarrow> string" where
  "clean_loop rooted out dotdot [] = out"
| "clean_loop rooted out dotdot (c # p) =
     (if c = sep then clean_loop rooted out dotdot p
      else if c = CHR ''.'' \<and> (p = [] \<or> hd p = sep) then clean_loop rooted out dotdot p
      else if c = CHR ''.'' \<and> p \<noteq> [] \<and> hd p = CHR ''.'' \<and> (tl p = [] \<or> hd (tl p) = sep)
      then
        (if length out > dotdot
         then clean_loop rooted (take (backtrack dotdot out (length out - 1)) out) dotdot (tl p)
         else if \<not> rooted
         then clean_loop rooted ((if out \<noteq> [] then out @ [sep] else out) @ ''..'')
                (length ((if out \<noteq> [] then out @ [sep] else out) @ ''..'')) (tl p)
         else clean_loop rooted out dotdot (tl p))
      else
        clean_loop rooted
          ((if (rooted \<and> length out \<noteq> 1) \<or> (\<not> rooted \<and> length out \<noteq> 0)
            then out @ [sep] else out) @ c # takeWhile (\<lambda>x. x \<noteq> sep) p)
          dotdot (dropWhile (\<lambda>x. x \<noteq> sep) p))"
  by pat_completeness auto
termination
  by (relation "measure (\<lambda>(rooted, out, dotdot, p). length p)")
     (auto simp: less_Suc_eq_le length_dropWhile_le)

definition Clean :: "string \<Rightarrow> string" where
  "Clean path =
     (if path = [] then ''.''
      else let rooted = (hd path = sep);
               out = (if rooted then clean_loop True [sep] 1 (tl path)
                      else clean_loop False [] 0 path)
           in if out = [] then ''.'' else out)"

text \<open>\<^verbatim>\<open>filepath.Join\<close>: the elements from the first non-empty one on, joined and cleaned.\<close>

definition filepath_Join :: "string list \<Rightarrow> string" where
  "filepath_Join elem =
     (case dropWhile (\<lambda>e. e = []) elem of [] \<Rightarrow> [] | es \<Rightarrow> Clean (Join es [sep]))"

section \<open>Validation of names and of sub-paths\<close>

text \<open>The character classes \<^verbatim>\<open>[a-zA-Z0-9]\<close> and \<^verbatim>\<open>[a-zA-Z0-9_-]\<close>.\<close>

definition is_alnum :: "char \<Rightarrow> bool" where
  "is_alnum c =
     (c \<in> set ''abcdefghijklmnopqrstuvwxyzABCDEFGHIJKLMNOPQRSTUVWXYZ0123456789'')"

definition is_name_char :: "char \<Rightarrow> bool" where
  "is_name_char c = (is_alnum c \<or> c = CHR ''_'' \<or> c = CHR ''-'')"

text \<open>\<^verbatim>\<open>usernameRegex = ^[a-zA-Z0-9_-]{1,32}$\<close>; in Go \<^verbatim>\<open>$\<close> matches at the end of the text only.\<close>

definition isValidUsername :: "string \<Rightarrow> bool" where
  "isValidUsername username =
     (1 \<le> length username \<and> length username \<le> 32 \<and> list_all is_name_char username)"

text \<open>
  \<^verbatim>\<open>shareNameRegex = ^[a-zA-Z0-9\p{Han}]+$\<close>. The table of the Han script belongs to
  the Go library and is a parameter: \<open>han s\<close> is the number of bytes of the Han character
  that \<open>s\<close> starts with, 0 if it starts with none.
\<close>

fun share_name_chars :: "(string \<Rightarrow> nat) \<Rightarrow> string \<Rightarrow> bool" where
  "share_name_chars han [] = True"
| "share_name_chars han (c # s) =
     (if is_alnum c then share_name_chars han s
      else if han (c # s) = 0 then False
      else share_name_chars han (drop (han (c # s) - 1) s))"

definition isValidShareName :: "(string \<Rightarrow> nat) \<Rightarrow> string \<Rightarrow> bool" where
  "isValidShareName han name = (if name = [] then True else share_name_chars han name)"

datatype error =
    InvalidUsername | CreateHomeFailed | ChownFailed | ChmodFailed | UseraddFailed
  | StdinPipeFailed | StartFailed | WritePasswordFailed | CreateSambaUserFailed
  | EnableFailed
  | ReadConfigFailed | ParseFailed | ModifyFailed | WriteConfigFailed
  | DeleteSambaUserFailed | DeleteUnixUserFailed | DeleteHomeFailed
  | InvalidOwner | InvalidShareName | MustShareWithAtLeastOneUser
  | InvalidSharedWith string | OwnerHomeMissing | PathTraversal
  | CreateSubdirFailed | SubdirChownFailed | SubdirChmodFailed
  | ShareNameExists string | ShareNotFound string | InvalidShareID

text \<open>The first three statements of \<^verbatim>\<open>cleanSubPath\<close> after the test for the empty path.\<close>

definition cleaned_subpath :: "string \<Rightarrow> string" where
  "cleaned_subpath subPath = TrimPrefix (TrimPrefix (Clean subPath) ''/'') [CHR 0x5C]"

definition cleanSubPath :: "string \<Rightarrow> error + string" where
  "cleanSubPath subPath =
     (if subPath = [] then Inr []
      else let cleaned = cleaned_subpath subPath
           in if Contains cleaned ''..'' then Inl PathTraversal
              else if cleaned = [] \<or> cleaned = ''.'' then Inr []
              else Inr cleaned)"

text \<open>
  \<^verbatim>\<open>sharePattern = ^([a-zA-Z0-9_-]+)-share-(.+)$\<close>. The first group is greedy, so the
  owner is the longest prefix of name characters that is followed by \<open>-share-\<close> and a
  non-empty rest (the dot matches every character but the line feed).
\<close>

definition share_split_ok :: "string \<Rightarrow> nat \<Rightarrow> bool" where
  "share_split_ok s i =
     (0 < i \<and> list_all is_name_char (take i s) \<and> HasPrefix (drop i s) ''-share-''
      \<and> drop (i + 7) s \<noteq> [] \<and> LF \<notin> set (drop (i + 7) s))"

fun find_split :: "string \<Rightarrow> nat \<Rightarrow> string option" where
  "find_split s 0 = None"
| "find_split s (Suc i) =
     (if share_split_ok s (Suc i) then Some (take (Suc i) s) else find_split s i)"

text \<open>\<^verbatim>\<open>sharePattern.FindStringSubmatch(s)[1]\<close>, \<open>None\<close> when there is no match.\<close>

definition sharePattern_owner :: "string \<Rightarrow> string option" where
  "sharePattern_owner s = find_split s (length s)"

definition sharePattern_MatchString :: "string \<Rightarrow> bool" where
  "sharePattern_MatchString s = (sharePattern_owner s \<noteq> None)"

section \<open>The data of the services\<close>

text \<open>\<^verbatim>\<open>config.AppConfig\<close>, with the table of the Han script (see \<open>isValidShareName\<close>).\<close>

record config =
  HomeDir :: string
  ConfigPath :: string
  Han :: "string \<Rightarrow> nat"

text \<open>\<^verbatim>\<open>types.Share\<close> and \<^verbatim>\<open>types.ShareResponse\<close>.\<close>

record Share =
  Name :: string
  Owner :: string
  SharedWith :: "string list"
  ReadOnly :: bool
  Comment :: string
  SubPath :: string

record ShareResponse =
  r_ID :: string
  r_Owner :: string
  r_Path :: string
  r_SharedWith :: "string list"
  r_ReadOnly :: bool
  r_Comment :: string
  r_SubPath :: string

section \<open>Reading a text line by line\<close>

text \<open>
  \<^verbatim>\<open>bufio.Scanner\<close> with its default split function \<^verbatim>\<open>ScanLines\<close>: the text is cut at
  every line feed, a text that ends with a line feed has no further (empty) line after
  it, and one carriage return at the end of a line is dropped. The scanner stops with
  \<^verbatim>\<open>ErrTooLong\<close> (here \<open>None\<close>) at a line of \<^verbatim>\<open>MaxScanTokenSize\<close> bytes or more.
\<close>

definition dropCR :: "string \<Rightarrow> string" where
  "dropCR l = (if l \<noteq> [] \<and> last l = CR then butlast l else l)"

definition MaxScanTokenSize :: nat where
  "MaxScanTokenSize = 65536"

definition scan_tokens :: "string \<Rightarrow> string list" where
  "scan_tokens content =
     (let raw = split_on LF content in if last raw = [] then butlast raw else raw)"

definition text_lines :: "string \<Rightarrow> string list" where
  "text_lines content = map dropCR (scan_tokens content)"

definition ScanLines :: "string \<Rightarrow> string list option" where
  "ScanLines content =
     (if list_ex (\<lambda>l. MaxScanTokenSize \<le> length l) (scan_tokens content) then None
      else Some (text_lines content))"

section \<open>Share sections: writing, reading, rewriting\<close>

definition is_header :: "string \<Rightarrow> bool" where
  "is_header trimmed = (HasPrefix trimmed ''['' \<and> HasSuffix trimmed '']'')"

definition buildShareConfigLines :: "config \<Rightarrow> string \<Rightarrow> Share \<Rightarrow> string list" where
  "buildShareConfigLines cfg shareID share =
     (let ownerHome = filepath_Join [HomeDir cfg, Owner share];
          sharePath =
            (if SubPath share \<noteq> []
             then (case cleanSubPath (SubPath share) of
                     Inl e \<Rightarrow> ownerHome
                   | Inr cleanedSubPath \<Rightarrow>
                       if cleanedSubPath \<noteq> [] then filepath_Join [ownerHome, cleanedSubPath]
                       else ownerHome)
             else ownerHome);
          validUsersStr = Join (SharedWith share) '' ''
      in [''['' @ shareID @ '']'',
          ''   path = '' @ sharePath,
          ''   browseable = yes'',
          ''   valid users = '' @ validUsersStr,
          ''   force user = root'',
          ''   force group = root'']
         @ (if ReadOnly share then [''   read only = yes'']
            else [''   read only = no'', ''   writable = yes''])
         @ (if Comment share \<noteq> [] then [''   comment = '' @ Comment share] else []))"

definition buildShareConfig :: "config \<Rightarrow> string \<Rightarrow> Share \<Rightarrow> string" where
  "buildShareConfig cfg shareID share =
     [LF] @ Join (buildShareConfigLines cfg shareID share) [LF] @ [LF]"

definition writeShareToLines :: "config \<Rightarrow> string \<Rightarrow> Share \<Rightarrow> string list" where
  "writeShareToLines cfg shareID share = buildShareConfigLines cfg shareID share"

text \<open>
  \<^verbatim>\<open>parseSharesFromContent\<close>: the state of its loop is the list of shares found so far
  and the share of the section being read.
\<close>

definition parse_property :: "config \<Rightarrow> ShareResponse \<Rightarrow> string \<Rightarrow> string \<Rightarrow> ShareResponse" where
  "parse_property cfg cur key val =
     (if key = ''path'' then
        (let cur1 = cur\<lparr>r_Path := val\<rparr>;
             ownerHome = filepath_Join [HomeDir cfg, r_Owner cur]
         in if HasPrefix val ownerHome
            then (let subPath = TrimPrefix (TrimPrefix (TrimPrefix val ownerHome) ''/'') [CHR 0x5C]
                  in if subPath \<noteq> [] then cur1\<lparr>r_SubPath := subPath\<rparr> else cur1)
            else cur1)
      else if key = ''read only'' then cur\<lparr>r_ReadOnly := (val = ''yes'')\<rparr>
      else if key = ''comment'' then cur\<lparr>r_Comment := val\<rparr>
      else if key = ''valid users'' then cur\<lparr>r_SharedWith := Fields val\<rparr>
      else cur)"

definition save_share :: "ShareResponse list \<Rightarrow> ShareResponse option \<Rightarrow> ShareResponse list" where
  "save_share shares currentShare =
     (case currentShare of
        None \<Rightarrow> shares
      | Some cur \<Rightarrow> if sharePattern_MatchString (r_ID cur) then shares @ [cur] else shares)"

definition parse_step ::
  "config \<Rightarrow> ShareResponse list \<times> ShareResponse option \<Rightarrow> string
     \<Rightarrow> ShareResponse list \<times> ShareResponse option" where
  "parse_step cfg st text =
     (let shares = fst st; currentShare = snd st; line = TrimSpace text
      in if line = [] \<or> HasPrefix line ''#'' \<or> HasPrefix line '';'' then st
         else if is_header line then
           (let shareName = Trim line ''[]'';
                owner = (case sharePattern_owner shareName of None \<Rightarrow> [] | Some ow \<Rightarrow> ow)
            in (save_share shares currentShare,
                Some \<lparr>r_ID = shareName, r_Owner = owner, r_Path = [], r_SharedWith = [],
                      r_ReadOnly = False, r_Comment = [], r_SubPath = []\<rparr>))
         else (case currentShare of
                 None \<Rightarrow> st
               | Some cur \<Rightarrow>
                   (case SplitN2 line of
                      None \<Rightarrow> st
                    | Some (k, v) \<Rightarrow>
                        (shares, Some (parse_property cfg cur (TrimSpace k) (TrimSpace v))))))"

definition parseSharesFromContent :: "config \<Rightarrow> string \<Rightarrow> error + ShareResponse list" where
  "parseSharesFromContent cfg content =
     (case ScanLines content of
        None \<Rightarrow> Inl ParseFailed
      | Some ls \<Rightarrow>
          (let st = foldl (parse_step cfg) ([], None) ls
           in Inr (save_share (fst st) (snd st))))"

text \<open>
  \<^verbatim>\<open>modifySharesInContent\<close>: the state of its loop is \<open>lines\<close>, \<open>inTargetShare\<close>,
  \<open>currentShareID\<close> and \<open>currentShareLines\<close>. The map \<open>sharesToDelete\<close> of the source
  holds only the value \<open>true\<close>, so it is the set of its keys; the map
  \<open>sharesToUpdate\<close> is an association list with one entry for each key.
\<close>

definition flush_share ::
  "config \<Rightarrow> string set \<Rightarrow> (string \<times> Share) list \<Rightarrow> string list \<times> bool \<times> string \<times> string list
     \<Rightarrow> string list" where
  "flush_share cfg sharesToDelete sharesToUpdate st =
     (case st of (lines, inTargetShare, currentShareID, currentShareLines) \<Rightarrow>
        (case (if inTargetShare \<and> currentShareID \<noteq> [] then map_of sharesToUpdate currentShareID
               else None) of
           Some updatedShare \<Rightarrow> lines @ writeShareToLines cfg currentShareID updatedShare
         | None \<Rightarrow>
             if \<not> inTargetShare \<or> currentShareID \<notin> sharesToDelete
             then lines @ currentShareLines else lines))"

definition modify_step ::
  "config \<Rightarrow> string set \<Rightarrow> (string \<times> Share) list \<Rightarrow> string list \<times> bool \<times> string \<times> string list
     \<Rightarrow> string \<Rightarrow> string list \<times> bool \<times> string \<times> string list" where
  "modify_step cfg sharesToDelete sharesToUpdate st line =
     (case st of (lines, inTargetShare, currentShareID, currentShareLines) \<Rightarrow>
        (let trimmedLine = TrimSpace line
         in if is_header trimmedLine then
              (let shareName = Trim trimmedLine ''[]''
               in (flush_share cfg sharesToDelete sharesToUpdate st,
                   shareName \<in> sharesToDelete \<or> map_of sharesToUpdate shareName \<noteq> None,
                   shareName, [line]))
            else if inTargetShare then st
            else (lines, inTargetShare, currentShareID, currentShareLines @ [line])))"

definition modifySharesInContent ::
  "config \<Rightarrow> string \<Rightarrow> string set \<Rightarrow> (string \<times> Share) list \<Rightarrow> error + string" where
  "modifySharesInContent cfg content sharesToDelete sharesToUpdate =
     (case ScanLines content of
        None \<Rightarrow> Inl ModifyFailed
      | Some ls \<Rightarrow>
          Inr (Join (flush_share cfg sharesToDelete sharesToUpdate
                       (foldl (modify_step cfg sharesToDelete sharesToUpdate)
                          ([], False, [], []) ls)) [LF]))"

section \<open>The file system, the clock and the external processes\<close>

text \<open>
  Every call of the \<^verbatim>\<open>os\<close> and \<^verbatim>\<open>os/exec\<close> packages is an effect. The world holds the
  regular files with their contents, the directories, the clock, the effects performed
  so far (oldest first) and a script with the outcomes of the effects to come, one
  outcome for each effect that can fail; when the script is used up every effect
  succeeds. External programs are recorded in the trace with their arguments; what they
  do to the account databases is outside the services and is not interpreted.
\<close>

datatype outcome = Succeeds | Fails

datatype effect =
    Open string
  | ReadFile string
  | WriteFile string string
  | Remove string
  | RemoveAll string
  | MkdirAll string
  | Stat string
  | Run string "string list"
  | StdinPipe string "string list"
  | Start string "string list"
  | WriteStdin string
  | Wait string "string list"

record clock =
  year :: nat
  month :: nat
  day :: nat
  hour :: nat
  minute :: nat
  second :: nat

record world =
  files :: "string \<rightharpoonup> string"
  dirs :: "string set"
  now :: clock
  torn :: "string option \<Rightarrow> string \<Rightarrow> string option"
  trace :: "effect list"
  script :: "outcome list"

text \<open>An effect that can fail: it is recorded and takes the next outcome of the script.\<close>

definition attempt :: "effect \<Rightarrow> world \<Rightarrow> bool \<times> world" where
  "attempt e w =
     (case script w of
        [] \<Rightarrow> (True, w\<lparr>trace := trace w @ [e]\<rparr>)
      | out # outs \<Rightarrow> (out = Succeeds, w\<lparr>trace := trace w @ [e], script := outs\<rparr>))"

text \<open>
  \<^verbatim>\<open>os.ReadFile\<close> (also for the reads of a scanner on an open file), where \<open>None\<close>
  is the error, and \<^verbatim>\<open>os.Open\<close>.
\<close>

definition os_ReadFile :: "string \<Rightarrow> world \<Rightarrow> string option \<times> world" where
  "os_ReadFile path w =
     (case attempt (ReadFile path) w of (ok, w1) \<Rightarrow> (if ok then files w1 path else None, w1))"

definition os_Open :: "string \<Rightarrow> world \<Rightarrow> bool \<times> world" where
  "os_Open path w =
     (case attempt (Open path) w of (ok, w1) \<Rightarrow> (ok \<and> files w1 path \<noteq> None, w1))"

text \<open>
  \<^verbatim>\<open>os.WriteFile\<close>: a write that fails leaves in the file whatever \<open>torn\<close> says (the
  file is truncated before the data is written).
\<close>

definition os_WriteFile :: "string \<Rightarrow> string \<Rightarrow> world \<Rightarrow> bool \<times> world" where
  "os_WriteFile path data w =
     (case attempt (WriteFile path data) w of (ok, w1) \<Rightarrow>
        if ok then (True, w1\<lparr>files := (files w1)(path \<mapsto> data)\<rparr>)
        else (False, w1\<lparr>files := (files w1)(path := torn w1 (files w1 path) data)\<rparr>))"

definition os_Remove :: "string \<Rightarrow> world \<Rightarrow> bool \<times> world" where
  "os_Remove path w =
     (case attempt (Remove path) w of (ok, w1) \<Rightarrow>
        if ok then (True, w1\<lparr>files := (files w1)(path := None)\<rparr>) else (False, w1))"

text \<open>Whether \<open>q\<close> is \<open>path\<close> or lies below it.\<close>

definition within :: "string \<Rightarrow> string \<Rightarrow> bool" where
  "within path q = (q = path \<or> HasPrefix q (path @ [sep]))"

text \<open>\<^verbatim>\<open>os.RemoveAll\<close>; a removal that fails is taken to remove nothing.\<close>

definition os_RemoveAll :: "string \<Rightarrow> world \<Rightarrow> bool \<times> world" where
  "os_RemoveAll path w =
     (case attempt (RemoveAll path) w of (ok, w1) \<Rightarrow>
        if ok
        then (True, w1\<lparr>files := (\<lambda>q. if within path q then None else files w1 q),
                        dirs := {d \<in> dirs w1. \<not> within path d}\<rparr>)
        else (False, w1))"

text \<open>\<^verbatim>\<open>os.MkdirAll\<close>; of the directories it creates only the last is recorded.\<close>

definition os_MkdirAll :: "string \<Rightarrow> world \<Rightarrow> bool \<times> world" where
  "os_MkdirAll path w =
     (case attempt (MkdirAll path) w of (ok, w1) \<Rightarrow>
        if ok then (True, w1\<lparr>dirs := insert path (dirs w1)\<rparr>) else (False, w1))"

text \<open>
  \<^verbatim>\<open>os.Stat\<close> followed by \<^verbatim>\<open>os.IsNotExist\<close>: the services ignore every other error of
  \<^verbatim>\<open>Stat\<close>, so the script is not consulted.
\<close>

definition stat_IsNotExist :: "string \<Rightarrow> world \<Rightarrow> bool \<times> world" where
  "stat_IsNotExist path w =
     (path \<notin> dirs w \<and> files w path = None, w\<lparr>trace := trace w @ [Stat path]\<rparr>)"

text \<open>\<^verbatim>\<open>exec.Command(name, args...)\<close> with \<^verbatim>\<open>Run\<close> or \<^verbatim>\<open>CombinedOutput\<close>.\<close>

definition exec_Run :: "string \<Rightarrow> string list \<Rightarrow> world \<Rightarrow> bool \<times> world" where
  "exec_Run name args w = attempt (Run name args) w"

definition ReloadSambaConfig :: "world \<Rightarrow> bool \<times> world" where
  "ReloadSambaConfig w = exec_Run ''smbcontrol'' [''smbd'', ''reload-config''] w"

text \<open>\<^verbatim>\<open>time.Now().Format("20060102150405")\<close>.\<close>

fun show_nat :: "nat \<Rightarrow> string" where
  "show_nat n =
     (if n < 10 then [''0123456789'' ! n]
      else show_nat (n div 10) @ [''0123456789'' ! (n mod 10)])"

definition pad :: "nat \<Rightarrow> nat \<Rightarrow> string" where
  "pad width n = replicate (width - length (show_nat n)) CHR ''0'' @ show_nat n"

definition format_timestamp :: "clock \<Rightarrow> string" where
  "format_timestamp t =
     pad 4 (year t) @ pad 2 (month t) @ pad 2 (day t)
     @ pad 2 (hour t) @ pad 2 (minute t) @ pad 2 (second t)"

section \<open>Users\<close>

record User =
  Username :: string
  Password :: string

text \<open>
  \<^verbatim>\<open>CreateUser\<close>. The result is the error returned (\<open>None\<close> for \<^verbatim>\<open>nil\<close>) and the
  world after the call.
\<close>

definition cleanup_user :: "string \<Rightarrow> string \<Rightarrow> world \<Rightarrow> world" where
  "cleanup_user username homeDir w =
     snd (os_RemoveAll homeDir (snd (exec_Run ''userdel'' [''--extrausers'', username] w)))"

definition create_samba_user :: "User \<Rightarrow> string \<Rightarrow> world \<Rightarrow> error option \<times> world" where
  "create_samba_user user homeDir w =
     (let args = [''-a'', ''-s'', Username user] in
      case attempt (StdinPipe ''smbpasswd'' args) w of (ok5, w5) \<Rightarrow>
      if \<not> ok5 then (Some StdinPipeFailed, cleanup_user (Username user) homeDir w5) else
      case attempt (Start ''smbpasswd'' args) w5 of (ok6, w6) \<Rightarrow>
      if \<not> ok6 then (Some StartFailed, cleanup_user (Username user) homeDir w6) else
      case attempt (WriteStdin (Password user @ [LF] @ Password user @ [LF])) w6 of (ok7, w7) \<Rightarrow>
      if \<not> ok7 then (Some WritePasswordFailed, cleanup_user (Username user) homeDir w7) else
      case attempt (Wait ''smbpasswd'' args) w7 of (ok8, w8) \<Rightarrow>
      if \<not> ok8 then (Some CreateSambaUserFailed, cleanup_user (Username user) homeDir w8) else
      case exec_Run ''smbpasswd'' [''-e'', Username user] w8 of (ok9, w9) \<Rightarrow>
      if \<not> ok9
      then (Some EnableFailed, snd (exec_Run ''userdel'' [''--extrausers'', Username user] w9))
      else (None, w9))"

definition CreateUser :: "config \<Rightarrow> User \<Rightarrow> world \<Rightarrow> error option \<times> world" where
  "CreateUser cfg user w =
     (if \<not> isValidUsername (Username user) then (Some InvalidUsername, w) else
      let homeDir = filepath_Join [HomeDir cfg, Username user] in
      case os_MkdirAll homeDir w of (ok1, w1) \<Rightarrow>
      if \<not> ok1 then (Some CreateHomeFailed, w1) else
      case exec_Run ''chown'' [''-R'', ''root:root'', homeDir] w1 of (ok2, w2) \<Rightarrow>
      if \<not> ok2 then (Some ChownFailed, w2) else
      case exec_Run ''chmod'' [''-R'', ''770'', homeDir] w2 of (ok3, w3) \<Rightarrow>
      if \<not> ok3 then (Some ChmodFailed, w3) else
      case exec_Run ''useradd''
             [''--extrausers'', ''--no-create-home'', ''--shell'', ''/usr/sbin/nologin'',
              ''--home-dir'', homeDir, ''--badname'', Username user] w3 of (ok4, w4) \<Rightarrow>
      if \<not> ok4 then (Some UseraddFailed, snd (os_RemoveAll homeDir w4)) else
      create_samba_user user homeDir w4)"

text \<open>\<^verbatim>\<open>contains\<close> and \<^verbatim>\<open>removeFromSlice\<close>.\<close>

definition contains :: "string list \<Rightarrow> string \<Rightarrow> bool" where
  "contains slice item = (item \<in> set slice)"

definition removeFromSlice :: "string list \<Rightarrow> string \<Rightarrow> string list" where
  "removeFromSlice slice item = filter (\<lambda>s. s \<noteq> item) slice"

text \<open>
  The loop of \<^verbatim>\<open>DeleteUser\<close> over the shares: its state is the pair of
  \<open>sharesToDelete\<close> and \<open>sharesToUpdate\<close>. The share it stores for an update is built
  from four fields of the share read; \<open>Name\<close> and \<open>SubPath\<close> keep Go's zero value.
\<close>

definition plan_step ::
  "string \<Rightarrow> string set \<times> (string \<times> Share) list \<Rightarrow> ShareResponse
     \<Rightarrow> string set \<times> (string \<times> Share) list" where
  "plan_step username plan share =
     (case plan of (sharesToDelete, sharesToUpdate) \<Rightarrow>
        if r_Owner share = username then (insert (r_ID share) sharesToDelete, sharesToUpdate)
        else if contains (r_SharedWith share) username then
          (let newSharedWith = removeFromSlice (r_SharedWith share) username
           in if length newSharedWith = 0
              then (insert (r_ID share) sharesToDelete, sharesToUpdate)
              else (sharesToDelete,
                    AList.update (r_ID share)
                      \<lparr>Name = [], Owner = r_Owner share, SharedWith = newSharedWith,
                       ReadOnly = r_ReadOnly share, Comment = r_Comment share,
                       SubPath = []\<rparr> sharesToUpdate))
        else plan)"

definition delete_plan ::
  "string \<Rightarrow> ShareResponse list \<Rightarrow> string set \<times> (string \<times> Share) list" where
  "delete_plan username shares = foldl (plan_step username) ({}, []) shares"

definition remove_account :: "config \<Rightarrow> string \<Rightarrow> bool \<Rightarrow> world \<Rightarrow> error option \<times> world" where
  "remove_account cfg username deleteHomeDir w =
     (case exec_Run ''smbpasswd'' [''-x'', username] w of (ok1, w1) \<Rightarrow>
      if \<not> ok1 then (Some DeleteSambaUserFailed, w1) else
      case exec_Run ''userdel'' [''--extrausers'', username] w1 of (ok2, w2) \<Rightarrow>
      if \<not> ok2 then (Some DeleteUnixUserFailed, w2) else
      if deleteHomeDir then
        (case os_RemoveAll (filepath_Join [HomeDir cfg, username]) w2 of (ok3, w3) \<Rightarrow>
         if \<not> ok3 then (Some DeleteHomeFailed, w3) else (None, snd (ReloadSambaConfig w3)))
      else (None, snd (ReloadSambaConfig w2)))"

definition DeleteUser :: "config \<Rightarrow> string \<Rightarrow> bool \<Rightarrow> world \<Rightarrow> error option \<times> world" where
  "DeleteUser cfg username deleteHomeDir w =
     (case os_ReadFile (ConfigPath cfg) w of
        (None, w1) \<Rightarrow> (Some ReadConfigFailed, w1)
      | (Some content, w1) \<Rightarrow>
          (case parseSharesFromContent cfg content of
             Inl e \<Rightarrow> (Some ParseFailed, w1)
           | Inr shares \<Rightarrow>
               (case delete_plan username shares of (sharesToDelete, sharesToUpdate) \<Rightarrow>
                  if sharesToDelete \<noteq> {} \<or> sharesToUpdate \<noteq> [] then
                    (case modifySharesInContent cfg content sharesToDelete sharesToUpdate of
                       Inl e \<Rightarrow> (Some ModifyFailed, w1)
                     | Inr newContent \<Rightarrow>
                         (case os_WriteFile (ConfigPath cfg) newContent w1 of (ok, w2) \<Rightarrow>
                            if \<not> ok then (Some WriteConfigFailed, w2)
                            else remove_account cfg username deleteHomeDir w2))
                  else remove_account cfg username deleteHomeDir w1)))"

section \<open>Shares\<close>

text \<open>The check of \<open>shared_with\<close> at the start of \<^verbatim>\<open>CreateShare\<close> and \<^verbatim>\<open>UpdateShare\<close>.\<close>

definition validate_shared_with :: "string list \<Rightarrow> error option" where
  "validate_shared_with sharedWith =
     (if length sharedWith = 0 then Some MustShareWithAtLeastOneUser
      else (case find (\<lambda>username. \<not> isValidUsername username) sharedWith of
              Some username \<Rightarrow> Some (InvalidSharedWith username)
            | None \<Rightarrow> None))"

text \<open>The block of both functions that validates the sub-path and creates the directory.\<close>

definition prepare_subdir :: "string \<Rightarrow> string \<Rightarrow> world \<Rightarrow> error option \<times> world" where
  "prepare_subdir ownerHome subPath w =
     (if subPath \<noteq> [] then
        (case cleanSubPath subPath of
           Inl e \<Rightarrow> (Some e, w)
         | Inr cleanedSubPath \<Rightarrow>
             if cleanedSubPath \<noteq> [] then
               (let fullSubPath = filepath_Join [ownerHome, cleanedSubPath] in
                case os_MkdirAll fullSubPath w of (ok1, w1) \<Rightarrow>
                if \<not> ok1 then (Some CreateSubdirFailed, w1) else
                case exec_Run ''chown'' [''-R'', ''root:root'', fullSubPath] w1 of (ok2, w2) \<Rightarrow>
                if \<not> ok2 then (Some SubdirChownFailed, w2) else
                case exec_Run ''chmod'' [''-R'', ''770'', fullSubPath] w2 of (ok3, w3) \<Rightarrow>
                if \<not> ok3 then (Some SubdirChmodFailed, w3) else (None, w3))
             else (None, w))
      else (None, w))"

text \<open>The block of \<^verbatim>\<open>CreateShare\<close> that chooses the name of the new section.\<close>

definition generate_share_name :: "Share \<Rightarrow> string \<Rightarrow> clock \<Rightarrow> error + string" where
  "generate_share_name share content t =
     (if Name share \<noteq> [] then
        (let shareName = Owner share @ ''-share-'' @ Name share
         in if Contains content (''['' @ shareName @ '']'')
            then Inl (ShareNameExists (Name share)) else Inr shareName)
      else Inr (Owner share @ ''-share-'' @ format_timestamp t))"

definition CreateShare :: "config \<Rightarrow> Share \<Rightarrow> world \<Rightarrow> (error + string) \<times> world" where
  "CreateShare cfg share w =
     (if \<not> isValidUsername (Owner share) then (Inl InvalidOwner, w)
      else if \<not> isValidShareName (Han cfg) (Name share) then (Inl InvalidShareName, w)
      else
       (case validate_shared_with (SharedWith share) of
          Some e \<Rightarrow> (Inl e, w)
        | None \<Rightarrow>
           (let ownerHome = filepath_Join [HomeDir cfg, Owner share] in
            case stat_IsNotExist ownerHome w of (missing, w1) \<Rightarrow>
            if missing then (Inl OwnerHomeMissing, w1) else
             (case prepare_subdir ownerHome (SubPath share) w1 of
                (Some e, w2) \<Rightarrow> (Inl e, w2)
              | (None, w2) \<Rightarrow>
                 (case os_ReadFile (ConfigPath cfg) w2 of
                    (None, w3) \<Rightarrow> (Inl ReadConfigFailed, w3)
                  | (Some content, w3) \<Rightarrow>
                     (case generate_share_name share content (now w3) of
                        Inl e \<Rightarrow> (Inl e, w3)
                      | Inr shareName \<Rightarrow>
                         (case os_WriteFile (ConfigPath cfg)
                                 (content @ buildShareConfig cfg shareName share) w3
                          of (ok, w4) \<Rightarrow>
                            if \<not> ok then (Inl WriteConfigFailed, w4)
                            else (Inr shareName, snd (ReloadSambaConfig w4)))))))))"

definition DeleteShare :: "config \<Rightarrow> string \<Rightarrow> world \<Rightarrow> error option \<times> world" where
  "DeleteShare cfg shareName w =
     (case os_ReadFile (ConfigPath cfg) w of
        (None, w1) \<Rightarrow> (Some ReadConfigFailed, w1)
      | (Some content, w1) \<Rightarrow>
         (case modifySharesInContent cfg content {shareName} [] of
            Inl e \<Rightarrow> (Some ModifyFailed, w1)
          | Inr newContent \<Rightarrow>
              if newContent = content then (Some (ShareNotFound shareName), w1) else
               (case os_WriteFile (ConfigPath cfg) newContent w1 of (ok, w2) \<Rightarrow>
                  if \<not> ok then (Some WriteConfigFailed, w2)
                  else (None, snd (ReloadSambaConfig w2)))))"

definition UpdateShare :: "config \<Rightarrow> string \<Rightarrow> Share \<Rightarrow> world \<Rightarrow> error option \<times> world" where
  "UpdateShare cfg shareId share w =
     (if \<not> sharePattern_MatchString shareId then (Some InvalidShareID, w)
      else
       (case validate_shared_with (SharedWith share) of
          Some e \<Rightarrow> (Some e, w)
        | None \<Rightarrow>
           (let ownerHome = filepath_Join [HomeDir cfg, Owner share] in
            case stat_IsNotExist ownerHome w of (missing, w1) \<Rightarrow>
            if missing then (Some OwnerHomeMissing, w1) else
             (case prepare_subdir ownerHome (SubPath share) w1 of
                (Some e, w2) \<Rightarrow> (Some e, w2)
              | (None, w2) \<Rightarrow>
                 (case os_ReadFile (ConfigPath cfg) w2 of
                    (None, w3) \<Rightarrow> (Some ReadConfigFailed, w3)
                  | (Some content, w3) \<Rightarrow>
                     (case modifySharesInContent cfg content {} [(shareId, share)] of
                        Inl e \<Rightarrow> (Some ModifyFailed, w3)
                      | Inr newContent \<Rightarrow>
                         (case os_WriteFile (ConfigPath cfg) newContent w3 of (ok, w4) \<Rightarrow>
                            if \<not> ok then (Some WriteConfigFailed, w4)
                            else (None, snd (ReloadSambaConfig w4)))))))))"

section \<open>The global and homes sections\<close>

record SambaGlobalConfig =
  Workgroup :: string
  ServerString :: string
  Security :: string
  PassdbBackend :: string
  MapToGuest :: string
  AccessBasedShareEnum :: string

record SambaHomesConfig =
  h_Comment :: string
  Browseable :: string
  Writable :: string
  ValidUsers :: string
  ForceUser :: string
  ForceGroup :: string
  CreateMask :: string
  DirectoryMask :: string

text \<open>The two pointers of the request may be \<^verbatim>\<open>nil\<close>.\<close>

record UpdateSambaConfigRequest =
  Global :: "SambaGlobalConfig option"
  Homes :: "SambaHomesConfig option"

definition non_empty :: "string \<Rightarrow> string option" where
  "non_empty v = (if v \<noteq> [] then Some v else None)"

definition getGlobalValue :: "SambaGlobalConfig \<Rightarrow> string \<Rightarrow> string option" where
  "getGlobalValue cfg key =
     (if key = ''workgroup'' then non_empty (Workgroup cfg)
      else if key = ''serverstring'' then non_empty (ServerString cfg)
      else if key = ''security'' then non_empty (Security cfg)
      else if key = ''passdbbackend'' then non_empty (PassdbBackend cfg)
      else if key = ''maptoguest'' then non_empty (MapToGuest cfg)
      else if key = ''accessbasedshareenum'' then non_empty (AccessBasedShareEnum cfg)
      else None)"

definition getHomesValue :: "SambaHomesConfig \<Rightarrow> string \<Rightarrow> string option" where
  "getHomesValue cfg key =
     (if key = ''comment'' then non_empty (h_Comment cfg)
      else if key = ''browseable'' \<or> key = ''browsable'' then non_empty (Browseable cfg)
      else if key = ''writable'' \<or> key = ''writeable'' then non_empty (Writable cfg)
      else if key = ''validusers'' then non_empty (ValidUsers cfg)
      else if key = ''forceuser'' then non_empty (ForceUser cfg)
      else if key = ''forcegroup'' then non_empty (ForceGroup cfg)
      else if key = ''createmask'' \<or> key = ''createmode'' then non_empty (CreateMask cfg)
      else if key = ''directorymask'' \<or> key = ''directorymode''
      then non_empty (DirectoryMask cfg)
      else None)"

text \<open>
  The loop of \<^verbatim>\<open>UpdateSambaConfig\<close>: its state is \<open>lines\<close> and \<open>currentSection\<close>.
  The two blocks that update the global and the homes section each append a line of
  their own; \<open>replaced\<close> says whether one of them did.
\<close>

definition update_step ::
  "UpdateSambaConfigRequest \<Rightarrow> string list \<times> string \<Rightarrow> string \<Rightarrow> string list \<times> string" where
  "update_step req st line =
     (case st of (lines, currentSection) \<Rightarrow>
        (let trimmed = TrimSpace line
         in if is_header trimmed then (lines @ [line], ToLower (Trim trimmed ''[]''))
            else if trimmed = [] \<or> HasPrefix trimmed ''#'' \<or> HasPrefix trimmed '';''
            then (lines @ [line], currentSection)
            else (case SplitN2 trimmed of
                    None \<Rightarrow> (lines @ [line], currentSection)
                  | Some (k, v) \<Rightarrow>
                      (let key = TrimSpace k;
                           keyLower = ToLower (remove_spaces key);
                           inGlobal =
                             (if currentSection = ''global''
                              then (case Global req of
                                      None \<Rightarrow> None
                                    | Some g \<Rightarrow> getGlobalValue g keyLower)
                              else None);
                           inHomes =
                             (if currentSection = ''homes''
                              then (case Homes req of
                                      None \<Rightarrow> None
                                    | Some h \<Rightarrow> getHomesValue h keyLower)
                              else None);
                           lines1 =
                             (case inGlobal of
                                None \<Rightarrow> lines
                              | Some newValue \<Rightarrow> lines @ [''   '' @ key @ '' = '' @ newValue]);
                           lines2 =
                             (case inHomes of
                                None \<Rightarrow> lines1
                              | Some newValue \<Rightarrow> lines1 @ [''   '' @ key @ '' = '' @ newValue]);
                           replaced = (inGlobal \<noteq> None \<or> inHomes \<noteq> None)
                       in (if \<not> replaced then lines2 @ [line] else lines2,
                           currentSection)))))"

definition update_lines :: "UpdateSambaConfigRequest \<Rightarrow> string list \<Rightarrow> string list" where
  "update_lines req ls = fst (foldl (update_step req) ([], []) ls)"

definition smbConfPath :: "config \<Rightarrow> string" where
  "smbConfPath cfg = (if ConfigPath cfg = [] then ''/etc/samba/smb.conf'' else ConfigPath cfg)"

datatype config_error =
    OpenConfFailed | ReadConfFailed | WriteConfFailed
  | ReadOriginalFailed | BackupFailed | WriteNewFailed
  | ValidationAndRevertFailed | ValidationFailedReverted

definition UpdateSambaConfig ::
  "config \<Rightarrow> UpdateSambaConfigRequest \<Rightarrow> world \<Rightarrow> config_error option \<times> world" where
  "UpdateSambaConfig cfg req w =
     (case os_Open (smbConfPath cfg) w of (opened, w1) \<Rightarrow>
      if \<not> opened then (Some OpenConfFailed, w1) else
       (case os_ReadFile (smbConfPath cfg) w1 of
          (None, w2) \<Rightarrow> (Some ReadConfFailed, w2)
        | (Some content, w2) \<Rightarrow>
           (case ScanLines content of
              None \<Rightarrow> (Some ReadConfFailed, w2)
            | Some ls \<Rightarrow>
               (case os_WriteFile (smbConfPath cfg) (Join (update_lines req ls) [LF] @ [LF]) w2
                of (ok, w3) \<Rightarrow>
                  if \<not> ok then (Some WriteConfFailed, w3)
                  else (None, snd (ReloadSambaConfig w3))))))"

definition ValidateSambaConfig :: "string \<Rightarrow> world \<Rightarrow> bool \<times> world" where
  "ValidateSambaConfig configPath w = exec_Run ''testparm'' [''-s'', configPath] w"

text \<open>\<^verbatim>\<open>UpdateSambaConfigFile\<close>, with the new content of the request.\<close>

definition UpdateSambaConfigFile ::
  "config \<Rightarrow> string \<Rightarrow> world \<Rightarrow> config_error option \<times> world" where
  "UpdateSambaConfigFile cfg newContent w =
     (let backupPath = smbConfPath cfg @ ''.backup'' in
      case os_ReadFile (smbConfPath cfg) w of
        (None, w1) \<Rightarrow> (Some ReadOriginalFailed, w1)
      | (Some originalContent, w1) \<Rightarrow>
         (case os_WriteFile backupPath originalContent w1 of (ok2, w2) \<Rightarrow>
          if \<not> ok2 then (Some BackupFailed, w2) else
          case os_WriteFile (smbConfPath cfg) newContent w2 of (ok3, w3) \<Rightarrow>
          if \<not> ok3 then (Some WriteNewFailed, w3) else
          case ValidateSambaConfig (smbConfPath cfg) w3 of (valid, w4) \<Rightarrow>
          if \<not> valid then
            (case os_WriteFile (smbConfPath cfg) originalContent w4 of (ok5, w5) \<Rightarrow>
             if \<not> ok5 then (Some ValidationAndRevertFailed, w5)
             else (Some ValidationFailedReverted, snd (os_Remove backupPath w5)))
          else (None, snd (ReloadSambaConfig (snd (os_Remove backupPath w4))))))"

section \<open>Notions used to state the claims\<close>

text \<open>
  A document has a section \<open>name\<close> when one of its lines is a header, as
  \<open>modifySharesInContent\<close> and \<open>parseSharesFromContent\<close> recognise headers, with that
  name between the brackets.
\<close>

definition has_section :: "string \<Rightarrow> string \<Rightarrow> bool" where
  "has_section content name =
     list_ex (\<lambda>l. is_header (TrimSpace l) \<and> Trim (TrimSpace l) ''[]'' = name)
       (text_lines content)"

text \<open>No effect of the script left to come fails.\<close>

definition all_succeed :: "world \<Rightarrow> bool" where
  "all_succeed w = list_all (\<lambda>out. out = Succeeds) (script w)"

text \<open>
  The section a line belongs to: the name of the last header before it, in lower case
  (empty before the first header).
\<close>

definition next_section :: "string \<Rightarrow> string \<Rightarrow> string" where
  "next_section currentSection line =
     (if is_header (TrimSpace line) then ToLower (Trim (TrimSpace line) ''[]'')
      else currentSection)"

definition section_at :: "string list \<Rightarrow> nat \<Rightarrow> string" where
  "section_at ls i = foldl next_section [] (take i ls)"

text \<open>
  The value a request gives for a key of a section: it has one when the section is
  \<open>global\<close> or \<open>homes\<close>, the request has that part, the key is one of the known keys
  and the field of the request is not empty.
\<close>

definition requested :: "UpdateSambaConfigRequest \<Rightarrow> string \<Rightarrow> string \<Rightarrow> string option" where
  "requested req section keyLower =
     (if section = ''global''
      then (case Global req of None \<Rightarrow> None | Some g \<Rightarrow> getGlobalValue g keyLower)
      else if section = ''homes''
      then (case Homes req of None \<Rightarrow> None | Some h \<Rightarrow> getHomesValue h keyLower)
      else None)"

text \<open>What the loop of \<open>UpdateSambaConfig\<close> emits for one line of a section.\<close>

definition emit :: "UpdateSambaConfigRequest \<Rightarrow> string \<Rightarrow> string \<Rightarrow> string" where
  "emit req section line =
     (let trimmed = TrimSpace line
      in if is_header trimmed \<or> trimmed = [] \<or> HasPrefix trimmed ''#''
            \<or> HasPrefix trimmed '';'' then line
         else (case SplitN2 trimmed of
                 None \<Rightarrow> line
               | Some (k, v) \<Rightarrow>
                   (case requested req section (ToLower (remove_spaces (TrimSpace k))) of
                      None \<Rightarrow> line
                    | Some newValue \<Rightarrow> ''   '' @ TrimSpace k @ '' = '' @ newValue)))"

fun emits :: "UpdateSambaConfigRequest \<Rightarrow> string \<Rightarrow> string list \<Rightarrow> string list" where
  "emits req section [] = []"
| "emits req section (l # ls) = emit req section l # emits req (next_section section l) ls"

text \<open>The values of a request: the fields of the parts it has.\<close>

definition request_values :: "UpdateSambaConfigRequest \<Rightarrow> string list" where
  "request_values req =
     (case Global req of
        None \<Rightarrow> []
      | Some g \<Rightarrow> [Workgroup g, ServerString g, Security g, PassdbBackend g, MapToGuest g,
                   AccessBasedShareEnum g])
     @ (case Homes req of
          None \<Rightarrow> []
        | Some h \<Rightarrow> [h_Comment h, Browseable h, Writable h, ValidUsers h, ForceUser h,
                     ForceGroup h, CreateMask h, DirectoryMask h])"

section \<open>Sample configuration, documents and worlds\<close>

definition unlines :: "string list \<Rightarrow> string" where
  "unlines ls = concat (map (\<lambda>l. l @ [LF]) ls)"

definition sample_config :: config where
  "sample_config =
     \<lparr>HomeDir = ''/home/samba'', ConfigPath = ''/etc/samba/smb.conf'', Han = (\<lambda>s. 0)\<rparr>"

definition sample_clock :: clock where
  "sample_clock = \<lparr>year = 2025, month = 11, day = 28, hour = 18, minute = 48, second = 26\<rparr>"

text \<open>A world with one document as the configuration file, directories and a script.\<close>

definition world_with :: "string \<Rightarrow> string set \<Rightarrow> outcome list \<Rightarrow> world" where
  "world_with content ds outs =
     \<lparr>files = [''/etc/samba/smb.conf'' \<mapsto> content], dirs = ds, now = sample_clock,
      torn = (\<lambda>old new. None), trace = [], script = outs\<rparr>"

definition docs_share :: Share where
  "docs_share =
     \<lparr>Name = ''Docs'', Owner = ''alice'', SharedWith = [''bob''], ReadOnly = False,
      Comment = [], SubPath = []\<rparr>"

definition sample_request :: UpdateSambaConfigRequest where
  "sample_request =
     \<lparr>Global = Some \<lparr>Workgroup = ''NEW'', ServerString = [], Security = [],
                      PassdbBackend = [], MapToGuest = [], AccessBasedShareEnum = []\<rparr>,
      Homes = None\<rparr>"

text \<open>A request whose value for the workgroup holds three line feeds.\<close>

definition injecting_request :: UpdateSambaConfigRequest where
  "injecting_request =
     \<lparr>Global = Some \<lparr>Workgroup = ''NEW'' @ [LF] @ ''   guest ok = yes'' @ [LF] @ ''[evil]''
                                   @ [LF] @ ''   path = /'',
                      ServerString = [], Security = [],
                      PassdbBackend = [], MapToGuest = [], AccessBasedShareEnum = []\<rparr>,
      Homes = None\<rparr>"

text \<open>A share of bob's sub-directory \<open>docs\<close>, granted to alice and carol.\<close>

definition docs_document :: string where
  "docs_document =
     unlines [''[bob-share-1]'', ''   path = /home/samba/bob/docs'',
              ''   valid users = alice carol'']"

section \<open>Rules for evaluating the definitions\<close>

lemmas text_defs =
  HasPrefix_def HasSuffix_def TrimPrefix_def TrimSpace_def Trim_def Fields_def SplitN2_def
  remove_spaces_def lower_byte_def space_width_def space_width_rev_def space_encodings_def
  is_header_def

lemmas scan_defs =
  ScanLines_def text_lines_def scan_tokens_def dropCR_def MaxScanTokenSize_def

lemmas path_defs = Clean_def filepath_Join_def cleanSubPath_def cleaned_subpath_def

lemmas name_defs =
  isValidUsername_def isValidShareName_def is_name_char_def is_alnum_def
  sharePattern_owner_def sharePattern_MatchString_def share_split_ok_def

lemmas share_defs =
  buildShareConfigLines_def buildShareConfig_def writeShareToLines_def parse_property_def
  save_share_def parse_step_def parseSharesFromContent_def flush_share_def modify_step_def
  modifySharesInContent_def

lemmas world_defs =
  attempt_def os_ReadFile_def os_Open_def os_WriteFile_def os_Remove_def os_RemoveAll_def
  os_MkdirAll_def stat_IsNotExist_def exec_Run_def ReloadSambaConfig_def within_def
  world_with_def sample_config_def sample_clock_def unlines_def

lemmas op_defs =
  DeleteShare_def UpdateShare_def CreateShare_def validate_shared_with_def
  prepare_subdir_def generate_share_name_def DeleteUser_def remove_account_def
  delete_plan_def plan_step_def contains_def removeFromSlice_def CreateUser_def
  create_samba_user_def cleanup_user_def format_timestamp_def pad_def

section \<open>Sub-texts\<close>

lemma Contains_iff: "Contains s sub \<longleftrightarrow> (\<exists>p q. s = p @ sub @ q)"
proof (induction s)
  case Nil
  then show ?case by auto
next
  case (Cons c s)
  show ?case
  proof
    assume "Contains (c # s) sub"
    then consider "HasPrefix (c # s) sub" | "Contains s sub" by auto
    then show "\<exists>p q. c # s = p @ sub @ q"
    proof cases
      case 1
      then have "c # s = [] @ sub @ drop (length sub) (c # s)"
        unfolding HasPrefix_def by (metis append_Nil append_take_drop_id)
      then show ?thesis by blast
    next
      case 2
      then obtain p q where "s = p @ sub @ q" using Cons.IH by blast
      then have "c # s = (c # p) @ sub @ q" by simp
      then show ?thesis by blast
    qed
  next
    assume "\<exists>p q. c # s = p @ sub @ q"
    then obtain p q where pq: "c # s = p @ sub @ q" by blast
    show "Contains (c # s) sub"
    proof (cases p)
      case Nil
      then have "HasPrefix (c # s) sub" using pq by (simp add: HasPrefix_def)
      then show ?thesis by simp
    next
      case (Cons a p')
      then have "s = p' @ sub @ q" using pq by simp
      then show ?thesis using Cons.IH by auto
    qed
  qed
qed

lemma split_on_nonempty: "split_on d s \<noteq> []"
  by (induction s) (auto split: list.splits)

lemma split_on_hd_prefix: "\<exists>q. s = hd (split_on d s) @ q"
  by (induction s) (auto split: list.splits)

lemma split_on_infix: "x \<in> set (split_on d s) \<Longrightarrow> \<exists>p q. s = p @ x @ q"
proof (induction s arbitrary: x)
  case Nil
  then show ?case by simp
next
  case (Cons c s)
  show ?case
  proof (cases "c = d")
    case True
    with Cons.prems have "x = [] \<or> x \<in> set (split_on d s)" by simp
    then show ?thesis
    proof
      assume "x = []"
      then have "c # s = [] @ x @ (c # s)" by simp
      then show ?thesis by blast
    next
      assume "x \<in> set (split_on d s)"
      then obtain p q where "s = p @ x @ q" using Cons.IH by blast
      then have "c # s = (c # p) @ x @ q" by simp
      then show ?thesis by blast
    qed
  next
    case False
    obtain l ls where sp: "split_on d s = l # ls"
      using split_on_nonempty by (cases "split_on d s") auto
    with False Cons.prems have "x = c # l \<or> x \<in> set ls" by simp
    then show ?thesis
    proof
      assume x: "x = c # l"
      obtain q where "s = l @ q" using split_on_hd_prefix[of s d] sp by auto
      then have "c # s = [] @ x @ q" using x by simp
      then show ?thesis by blast
    next
      assume "x \<in> set ls"
      then have "x \<in> set (split_on d s)" using sp by simp
      then obtain p q where "s = p @ x @ q" using Cons.IH by blast
      then have "c # s = (c # p) @ x @ q" by simp
      then show ?thesis by blast
    qed
  qed
qed

lemma dotdot_segment_Contains:
  "''..'' \<in> set (split_on sep s) \<Longrightarrow> Contains s ''..''"
  using split_on_infix Contains_iff by blast

text \<open>Every line the scanner yields is a part of the text.\<close>

lemma line_infix:
  assumes "l \<in> set (text_lines content)"
  shows "\<exists>p q. content = p @ l @ q"
proof -
  from assms obtain t where t: "t \<in> set (scan_tokens content)" "l = dropCR t"
    by (auto simp: text_lines_def)
  have "t \<in> set (split_on LF content)"
    using t(1) by (auto simp: scan_tokens_def Let_def split: if_splits dest: in_set_butlastD)
  then obtain p q where pq: "content = p @ t @ q" using split_on_infix by blast
  obtain r where "t = l @ r"
    using t(2) by (cases "t \<noteq> [] \<and> last t = CR")
      (auto simp: dropCR_def intro: append_butlast_last_id[symmetric])
  then have "content = p @ l @ (r @ q)" using pq by simp
  then show ?thesis by blast
qed

lemma TrimLeftSpace_drop: "\<exists>n. TrimLeftSpace s = drop n s"
proof (induction s rule: TrimLeftSpace.induct)
  case 1
  then show ?case by simp
next
  case (2 c s)
  show ?case
  proof (cases "space_width (c # s) = 0")
    case True
    then have "TrimLeftSpace (c # s) = drop 0 (c # s)" by simp
    then show ?thesis by blast
  next
    case False
    then obtain n where
      "TrimLeftSpace (drop (space_width (c # s) - 1) s) = drop n (drop (space_width (c # s) - 1) s)"
      using 2 by blast
    moreover have "drop n (drop (space_width (c # s) - 1) s)
                     = drop (n + space_width (c # s)) (c # s)"
      using False by (simp add: drop_Cons')
    ultimately have "TrimLeftSpace (c # s) = drop (n + space_width (c # s)) (c # s)"
      using False by simp
    then show ?thesis by blast
  qed
qed

lemma TrimRightSpace_rev_drop: "\<exists>n. TrimRightSpace_rev r = drop n r"
proof (induction r rule: TrimRightSpace_rev.induct)
  case 1
  then show ?case by simp
next
  case (2 c r)
  show ?case
  proof (cases "space_width_rev (c # r) = 0")
    case True
    then have "TrimRightSpace_rev (c # r) = drop 0 (c # r)" by simp
    then show ?thesis by blast
  next
    case False
    then obtain n where
      "TrimRightSpace_rev (drop (space_width_rev (c # r) - 1) r)
         = drop n (drop (space_width_rev (c # r) - 1) r)"
      using 2 by blast
    moreover have "drop n (drop (space_width_rev (c # r) - 1) r)
                     = drop (n + space_width_rev (c # r)) (c # r)"
      using False by (simp add: drop_Cons')
    ultimately have "TrimRightSpace_rev (c # r) = drop (n + space_width_rev (c # r)) (c # r)"
      using False by simp
    then show ?thesis by blast
  qed
qed

lemma TrimSpace_infix: "\<exists>p q. s = p @ TrimSpace s @ q"
proof -
  obtain n where n: "TrimLeftSpace s = drop n s" using TrimLeftSpace_drop by blast
  define xs where "xs = drop n s"
  obtain m where m: "TrimRightSpace_rev (rev xs) = drop m (rev xs)"
    using TrimRightSpace_rev_drop by blast
  have "TrimSpace s = rev (drop m (rev xs))"
    unfolding TrimSpace_def n xs_def[symmetric] m by simp
  then have t: "TrimSpace s = take (length xs - m) xs" by (simp add: rev_drop)
  have "s = take n s @ xs" by (simp add: xs_def)
  also have "xs = TrimSpace s @ drop (length xs - m) xs" by (simp add: t)
  finally show ?thesis by blast
qed

lemma header_line_Contains:
  assumes "l \<in> set (text_lines content)" "TrimSpace l = t"
  shows "Contains content t"
proof -
  obtain p q where "content = p @ l @ q" using line_infix assms(1) by blast
  moreover obtain p' q' where "l = p' @ t @ q'" using TrimSpace_infix assms(2) by blast
  ultimately have "content = (p @ p') @ t @ (q' @ q)" by simp
  then show ?thesis unfolding Contains_iff by blast
qed

section \<open>What the effects change\<close>

lemma attempt_frame:
  "files (snd (attempt e w)) = files w" "dirs (snd (attempt e w)) = dirs w"
  "now (snd (attempt e w)) = now w" "torn (snd (attempt e w)) = torn w"
  by (simp_all add: attempt_def split: list.splits)

lemma os_ReadFile_Some:
  "os_ReadFile p w = (Some c, w') \<Longrightarrow>
     files w p = Some c \<and> files w' = files w \<and> dirs w' = dirs w \<and> now w' = now w"
  by (auto simp: os_ReadFile_def attempt_def split: list.splits if_splits)

lemma os_Open_True:
  "os_Open p w = (True, w') \<Longrightarrow> files w' = files w \<and> dirs w' = dirs w \<and> now w' = now w"
  by (auto simp: os_Open_def attempt_def split: list.splits if_splits)

lemma os_WriteFile_True:
  "os_WriteFile p d w = (True, w') \<Longrightarrow>
     files w' = (files w)(p \<mapsto> d) \<and> dirs w' = dirs w \<and> now w' = now w"
  by (auto simp: os_WriteFile_def attempt_def split: list.splits if_splits)

lemma Reload_frame:
  "files (snd (ReloadSambaConfig w)) = files w" "dirs (snd (ReloadSambaConfig w)) = dirs w"
  by (simp_all add: ReloadSambaConfig_def exec_Run_def attempt_frame)

text \<open>The effects when nothing of the script fails.\<close>

lemma os_MkdirAll_ok:
  assumes "all_succeed w"
  shows "fst (os_MkdirAll p w)" "all_succeed (snd (os_MkdirAll p w))"
    "files (snd (os_MkdirAll p w)) = files w" "now (snd (os_MkdirAll p w)) = now w"
    "dirs (snd (os_MkdirAll p w)) = insert p (dirs w)"
  using assms by (auto simp: os_MkdirAll_def attempt_def all_succeed_def split: list.splits)

lemma exec_Run_ok:
  assumes "all_succeed w"
  shows "fst (exec_Run name args w)" "all_succeed (snd (exec_Run name args w))"
    "files (snd (exec_Run name args w)) = files w" "now (snd (exec_Run name args w)) = now w"
    "dirs (snd (exec_Run name args w)) = dirs w"
  using assms by (auto simp: exec_Run_def attempt_def all_succeed_def split: list.splits)

lemma os_ReadFile_ok:
  assumes "all_succeed w"
  shows "fst (os_ReadFile p w) = files w p" "all_succeed (snd (os_ReadFile p w))"
    "files (snd (os_ReadFile p w)) = files w" "now (snd (os_ReadFile p w)) = now w"
    "dirs (snd (os_ReadFile p w)) = dirs w"
  using assms by (auto simp: os_ReadFile_def attempt_def all_succeed_def split: list.splits)

lemma os_WriteFile_ok:
  assumes "all_succeed w"
  shows "fst (os_WriteFile p d w)" "all_succeed (snd (os_WriteFile p d w))"
    "files (snd (os_WriteFile p d w)) = (files w)(p \<mapsto> d)"
    "now (snd (os_WriteFile p d w)) = now w" "dirs (snd (os_WriteFile p d w)) = dirs w"
  using assms by (auto simp: os_WriteFile_def attempt_def all_succeed_def split: list.splits)

lemma stat_frame:
  "fst (stat_IsNotExist p w) = (p \<notin> dirs w \<and> files w p = None)"
  "all_succeed (snd (stat_IsNotExist p w)) = all_succeed w"
  "files (snd (stat_IsNotExist p w)) = files w" "now (snd (stat_IsNotExist p w)) = now w"
  "dirs (snd (stat_IsNotExist p w)) = dirs w"
  by (simp_all add: stat_IsNotExist_def all_succeed_def)

lemma prepare_subdir_ok:
  assumes "all_succeed w" "cleanSubPath sub \<noteq> Inl PathTraversal"
  shows "fst (prepare_subdir home sub w) = None
         \<and> all_succeed (snd (prepare_subdir home sub w))
         \<and> files (snd (prepare_subdir home sub w)) = files w
         \<and> now (snd (prepare_subdir home sub w)) = now w
         \<and> dirs w \<subseteq> dirs (snd (prepare_subdir home sub w))"
proof (cases "sub = []")
  case True
  then show ?thesis using assms by (simp add: prepare_subdir_def)
next
  case False
  obtain c where c: "cleanSubPath sub = Inr c"
    using assms(2)
    by (cases "cleanSubPath sub") (auto simp: cleanSubPath_def Let_def split: if_splits)
  show ?thesis
  proof (cases "c = []")
    case True
    then show ?thesis using assms False c by (simp add: prepare_subdir_def)
  next
    case nonempty: False
    let ?full = "filepath_Join [home, c]"
    let ?w1 = "snd (os_MkdirAll ?full w)"
    let ?w2 = "snd (exec_Run ''chown'' [''-R'', ''root:root'', ?full] ?w1)"
    let ?w3 = "snd (exec_Run ''chmod'' [''-R'', ''770'', ?full] ?w2)"
    note m = os_MkdirAll_ok[OF assms(1), of ?full]
    note r2 = exec_Run_ok[OF m(2), of "''chown''" "[''-R'', ''root:root'', ?full]"]
    note r3 = exec_Run_ok[OF r2(2), of "''chmod''" "[''-R'', ''770'', ?full]"]
    have res: "prepare_subdir home sub w = (None, ?w3)"
      using False c nonempty m(1) r2(1) r3(1)
      by (simp add: prepare_subdir_def Let_def case_prod_beta)
    show ?thesis unfolding res using m r2 r3 by auto
  qed
qed


section \<open>Lines and line feeds\<close>

text \<open>
  A text cut at the line feeds: no part holds a line feed, and strings without a line
  feed that are joined by line feeds are cut into themselves again.
\<close>

lemma split_on_no_sep: "x \<in> set (split_on d s) \<Longrightarrow> d \<notin> set x"
proof (induction s arbitrary: x)
  case Nil
  then show ?case by simp
next
  case (Cons c s)
  show ?case
  proof (cases "c = d")
    case True
    then show ?thesis using Cons by auto
  next
    case False
    obtain l ls where sp: "split_on d s = l # ls"
      using split_on_nonempty[of d s] by (cases "split_on d s") auto
    then show ?thesis using Cons False by auto
  qed
qed

lemma split_on_app: "d \<notin> set x \<Longrightarrow> split_on d (x @ d # s) = x # split_on d s"
  by (induction x) auto


lemma split_on_Join:
  "xs \<noteq> [] \<Longrightarrow> \<forall>l\<in>set xs. d \<notin> set l \<Longrightarrow> split_on d (Join xs [d] @ [d]) = xs @ [[]]"
proof (induction xs "[d]" rule: Join.induct)
  case 1
  then show ?case by simp
next
  case (2 x)
  then show ?case using split_on_app[of d x "[]"] by simp
next
  case (3 x y xs)
  then show ?case using split_on_app[of d x "Join (y # xs) [d] @ [d]"] by simp
qed


lemma text_lines_no_LF: "l \<in> set (text_lines content) \<Longrightarrow> LF \<notin> set l"
proof -
  assume "l \<in> set (text_lines content)"
  then obtain t where t: "t \<in> set (scan_tokens content)" "l = dropCR t"
    by (auto simp: text_lines_def)
  have "t \<in> set (split_on LF content)"
    using t(1) by (auto simp: scan_tokens_def Let_def dest: in_set_butlastD split: if_splits)
  then have "LF \<notin> set t" by (rule split_on_no_sep)
  then show ?thesis using t(2) by (auto simp: dropCR_def dest: in_set_butlastD)
qed

lemma ScanLines_no_LF: "ScanLines content = Some ls \<Longrightarrow> l \<in> set ls \<Longrightarrow> LF \<notin> set l"
  using text_lines_no_LF[of l content] by (auto simp: ScanLines_def split: if_splits)

lemma TrimSpace_subset: "set (TrimSpace s) \<subseteq> set s"
proof -
  obtain p q where "s = p @ TrimSpace s @ q" using TrimSpace_infix by blast
  then have "set s = set p \<union> set (TrimSpace s) \<union> set q" by (metis set_append Un_assoc)
  then show ?thesis by blast
qed

lemma SplitN2_key_subset: "SplitN2 s = Some (k, v) \<Longrightarrow> set k \<subseteq> set s"
  by (auto simp: SplitN2_def split: if_splits dest: set_takeWhileD)

section \<open>Claim C1: rewriting with nothing to delete and nothing to update\<close>

lemma modify_step_nothing:
  "modify_step cfg {} [] (lines, False, cur, curLines) line =
     (if is_header (TrimSpace line)
      then (lines @ curLines, False, Trim (TrimSpace line) ''[]'', [line])
      else (lines, False, cur, curLines @ [line]))"
  by (simp add: modify_step_def flush_share_def Let_def)

lemma foldl_modify_nothing:
  "\<exists>lines' cur' curLines'.
     foldl (modify_step cfg {} []) (lines, False, cur, curLines) ls
       = (lines', False, cur', curLines')
     \<and> lines' @ curLines' = lines @ curLines @ ls"
proof (induction ls arbitrary: lines cur curLines)
  case Nil
  then show ?case by simp
next
  case (Cons l ls)
  show ?case
  proof (cases "is_header (TrimSpace l)")
    case True
    then show ?thesis
      using Cons[of "lines @ curLines" "Trim (TrimSpace l) ''[]''" "[l]"]
      by (simp add: modify_step_nothing)
  next
    case False
    then show ?thesis
      using Cons[of lines cur "curLines @ [l]"] by (simp add: modify_step_nothing)
  qed
qed

text \<open>
  With nothing to delete and nothing to update the function returns the lines of the
  input, as the scanner reads them, joined by line feeds.
\<close>

lemma modifySharesInContent_nothing:
  "modifySharesInContent cfg content {} [] =
     (case ScanLines content of None \<Rightarrow> Inl ModifyFailed | Some ls \<Rightarrow> Inr (Join ls [LF]))"
proof (cases "ScanLines content")
  case None
  then show ?thesis by (simp add: modifySharesInContent_def)
next
  case (Some ls)
  obtain lines' cur' curLines' where
    "foldl (modify_step cfg {} []) ([], False, [], []) ls = (lines', False, cur', curLines')"
    "lines' @ curLines' = ls"
    using foldl_modify_nothing[of cfg "[]" "[]" "[]" ls] by auto
  then show ?thesis using Some by (simp add: modifySharesInContent_def flush_share_def)
qed

text \<open>
  Claim C1 says that \<open>modifySharesInContent\<close> with an empty delete set and an empty
  update set returns its input byte for byte. It does not: the line feed that ends the
  input is lost. For the document that consists of the line \<open>[global]\<close> and its line
  feed the result is \<open>[global]\<close> without the line feed.
\<close>

theorem modifySharesInContent_drops_final_newline:
  "modifySharesInContent cfg (''[global]'' @ [LF]) {} [] = Inr ''[global]''"
  by (simp add: modifySharesInContent_nothing scan_defs)

theorem modifySharesInContent_drops_final_newline_witness:
  "modifySharesInContent sample_config (''[global]'' @ [LF]) {} [] \<noteq> Inr (''[global]'' @ [LF])"
  using modifySharesInContent_drops_final_newline[of sample_config] by simp

section \<open>Claim C2: the shares of a deleted user\<close>

text \<open>Whether the plan of \<open>DeleteUser\<close> deletes a share.\<close>

lemma plan_step_fst:
  "fst (plan_step username (D, U) share) =
     (if r_Owner share = username
         \<or> (username \<in> set (r_SharedWith share)
             \<and> removeFromSlice (r_SharedWith share) username = [])
      then insert (r_ID share) D else D)"
  by (auto simp: plan_step_def contains_def Let_def)

lemma foldl_plan_fst:
  "fst (foldl (plan_step username) (D, U) shares)
     = D \<union> {r_ID s | s. s \<in> set shares
                \<and> (r_Owner s = username
                    \<or> (username \<in> set (r_SharedWith s)
                        \<and> removeFromSlice (r_SharedWith s) username = []))}"
proof (induction shares arbitrary: D U)
  case Nil
  then show ?case by simp
next
  case (Cons s shares)
  obtain D' U' where st: "plan_step username (D, U) s = (D', U')" by fastforce
  have D': "D' = (if r_Owner s = username
         \<or> (username \<in> set (r_SharedWith s)
             \<and> removeFromSlice (r_SharedWith s) username = [])
      then insert (r_ID s) D else D)"
    using plan_step_fst[of username D U s] st by simp
  show ?case using Cons[of D' U'] by (auto simp: st D')
qed

text \<open>
  The deletions of the plan are as the claim says: the shares the user owns and the
  shares that are left with nobody to share with.
\<close>

lemma delete_plan_deletes:
  "fst (delete_plan username shares)
     = {r_ID s | s. s \<in> set shares
          \<and> (r_Owner s = username
              \<or> (username \<in> set (r_SharedWith s)
                  \<and> removeFromSlice (r_SharedWith s) username = []))}"
  by (simp add: delete_plan_def foldl_plan_fst)

text \<open>The plan for the three shares of the claim, when alice is deleted.\<close>

lemma delete_plan_example:
  "delete_plan ''alice''
     [\<lparr>r_ID = ''alice-share-1'', r_Owner = ''alice'', r_Path = ''/home/samba/alice'',
       r_SharedWith = [''bob''], r_ReadOnly = False, r_Comment = [], r_SubPath = []\<rparr>,
      \<lparr>r_ID = ''bob-share-1'', r_Owner = ''bob'', r_Path = ''/home/samba/bob'',
       r_SharedWith = [''alice'', ''carol''], r_ReadOnly = False, r_Comment = [],
       r_SubPath = []\<rparr>,
      \<lparr>r_ID = ''bob-share-2'', r_Owner = ''bob'', r_Path = ''/home/samba/bob'',
       r_SharedWith = [''alice''], r_ReadOnly = False, r_Comment = [], r_SubPath = []\<rparr>]
   = ({''alice-share-1'', ''bob-share-2''},
      [(''bob-share-1'',
        \<lparr>Name = [], Owner = ''bob'', SharedWith = [''carol''], ReadOnly = False,
         Comment = [], SubPath = []\<rparr>)])"
  by (auto simp add: delete_plan_def plan_step_def contains_def removeFromSlice_def)

text \<open>
  Claim C2 says that a share which still has somebody to share with is updated to the
  same record with the deleted user removed. The update of the plan does not carry the
  sub-path of the share, and the section is written anew from the update: bob's share
  of \<open>/home/samba/bob/docs\<close> with alice and carol is, after alice is deleted, a share
  of \<open>/home/samba/bob\<close> with carol.
\<close>

theorem DeleteUser_update_loses_subpath:
  "parseSharesFromContent sample_config docs_document
     = Inr [\<lparr>r_ID = ''bob-share-1'', r_Owner = ''bob'', r_Path = ''/home/samba/bob/docs'',
             r_SharedWith = [''alice'', ''carol''], r_ReadOnly = False, r_Comment = [],
             r_SubPath = ''docs''\<rparr>]
   \<and> files (snd (DeleteUser sample_config ''alice'' False (world_with docs_document {} [])))
        ''/etc/samba/smb.conf''
     = Some (Join [''[bob-share-1]'', ''   path = /home/samba/bob'', ''   browseable = yes'',
                   ''   valid users = carol'', ''   force user = root'',
                   ''   force group = root'', ''   read only = no'', ''   writable = yes'']
               [LF])
   \<and> parseSharesFromContent sample_config
        (Join [''[bob-share-1]'', ''   path = /home/samba/bob'', ''   browseable = yes'',
               ''   valid users = carol'', ''   force user = root'',
               ''   force group = root'', ''   read only = no'', ''   writable = yes'']
           [LF])
     = Inr [\<lparr>r_ID = ''bob-share-1'', r_Owner = ''bob'', r_Path = ''/home/samba/bob'',
             r_SharedWith = [''carol''], r_ReadOnly = False, r_Comment = [],
             r_SubPath = []\<rparr>]"
  by (simp add: docs_document_def op_defs share_defs scan_defs text_defs world_defs
        name_defs path_defs Let_def)

theorem DeleteUser_update_loses_subpath_witness:
  "files (snd (DeleteUser sample_config ''alice'' False (world_with docs_document {} [])))
        ''/etc/samba/smb.conf''
     \<noteq> Some (Join [''[bob-share-1]'', ''   path = /home/samba/bob/docs'',
                   ''   browseable = yes'', ''   valid users = carol'',
                   ''   force user = root'', ''   force group = root'',
                   ''   read only = no'', ''   writable = yes''] [LF])"
  using DeleteUser_update_loses_subpath by simp

section \<open>Claim C3: sub-paths\<close>

text \<open>
  Claim C3, as amended: \<open>cleanSubPath\<close> accepts the empty path as "no subdirectory";
  otherwise it cleans the path and strips a leading separator, and it returns the
  traversal error exactly when the text \<open>..\<close> occurs anywhere in the result. That is
  so whenever the result has a \<open>..\<close> segment, but also for a name that merely
  contains two dots in a row. A result that is accepted is returned as it is, the empty
  result and \<open>.\<close> as the empty path. The paths \<open>../x\<close> and \<open>a/../../b\<close> are rejected,
  \<open>./\<close> gives the empty path and \<open>a/./b\<close> gives \<open>a/b\<close>.
\<close>

theorem cleanSubPath_traversal:
  "cleanSubPath [] = Inr []
   \<and> (subPath \<noteq> [] \<longrightarrow>
        (cleanSubPath subPath = Inl PathTraversal) = Contains (cleaned_subpath subPath) ''..'')
   \<and> (subPath \<noteq> [] \<and> ''..'' \<in> set (split_on sep (cleaned_subpath subPath)) \<longrightarrow>
        cleanSubPath subPath = Inl PathTraversal)
   \<and> (subPath \<noteq> [] \<and> \<not> Contains (cleaned_subpath subPath) ''..'' \<longrightarrow>
        cleanSubPath subPath =
          Inr (if cleaned_subpath subPath = [] \<or> cleaned_subpath subPath = ''.'' then []
               else cleaned_subpath subPath))
   \<and> cleanSubPath ''../x'' = Inl PathTraversal
   \<and> cleanSubPath ''a/../../b'' = Inl PathTraversal
   \<and> cleanSubPath ''./'' = Inr []
   \<and> cleanSubPath ''a/./b'' = Inr ''a/b''"
proof -
  have ex: "cleanSubPath ''../x'' = Inl PathTraversal"
    "cleanSubPath ''a/../../b'' = Inl PathTraversal"
    "cleanSubPath ''./'' = Inr []"
    "cleanSubPath ''a/./b'' = Inr ''a/b''"
    by (simp_all add: path_defs text_defs)
  have gen: "cleanSubPath [] = Inr []"
    "subPath \<noteq> [] \<longrightarrow>
        (cleanSubPath subPath = Inl PathTraversal) = Contains (cleaned_subpath subPath) ''..''"
    "subPath \<noteq> [] \<and> \<not> Contains (cleaned_subpath subPath) ''..'' \<longrightarrow>
        cleanSubPath subPath =
          Inr (if cleaned_subpath subPath = [] \<or> cleaned_subpath subPath = ''.'' then []
               else cleaned_subpath subPath)"
    by (simp_all add: cleanSubPath_def Let_def)
  have seg: "subPath \<noteq> [] \<and> ''..'' \<in> set (split_on sep (cleaned_subpath subPath)) \<longrightarrow>
        cleanSubPath subPath = Inl PathTraversal"
    using dotdot_segment_Contains by (simp add: cleanSubPath_def Let_def)
  show ?thesis using ex gen seg by blast
qed

text \<open>The theorem at the path \<open>x/../..\<close>, which cleans to \<open>..\<close>.\<close>

theorem cleanSubPath_traversal_witness:
  "''x/../..'' \<noteq> [] \<and> ''..'' \<in> set (split_on sep (cleaned_subpath ''x/../..''))
   \<and> cleanSubPath ''x/../..'' = Inl PathTraversal"
proof -
  have h: "''x/../..'' \<noteq> [] \<and> ''..'' \<in> set (split_on sep (cleaned_subpath ''x/../..''))"
    by (simp add: path_defs text_defs)
  show ?thesis using h cleanSubPath_traversal[of "''x/../..''"] by blast
qed

text \<open>
  The claim as it was stated fails at \<open>a..b\<close>: the path is rejected although its only
  segment is the name \<open>a..b\<close>.
\<close>

theorem cleanSubPath_rejects_dots_within_a_name:
  "cleanSubPath ''a..b'' = Inl PathTraversal
   \<and> ''..'' \<notin> set (split_on sep (cleaned_subpath ''a..b''))"
  by (simp add: path_defs text_defs)

section \<open>Claim C4: the name of a new share\<close>

text \<open>Creating a share when every check before the choice of its name passes.\<close>

lemma CreateShare_reaches_name:
  assumes v: "isValidUsername (Owner share)" "isValidShareName (Han cfg) (Name share)"
      "validate_shared_with (SharedWith share) = None"
    and home: "\<not> fst (stat_IsNotExist (filepath_Join [HomeDir cfg, Owner share]) w)"
    and sub: "cleanSubPath (SubPath share) \<noteq> Inl PathTraversal"
    and ok: "all_succeed w"
    and content: "files w (ConfigPath cfg) = Some content"
  shows "fst (CreateShare cfg share w) = generate_share_name share content (now w)"
    and "generate_share_name share content (now w) = Inr shareName \<Longrightarrow>
           files (snd (CreateShare cfg share w)) (ConfigPath cfg)
             = Some (content @ buildShareConfig cfg shareName share)
           \<and> (\<forall>p. p \<noteq> ConfigPath cfg \<longrightarrow> files (snd (CreateShare cfg share w)) p = files w p)
           \<and> all_succeed (snd (CreateShare cfg share w))
           \<and> dirs w \<subseteq> dirs (snd (CreateShare cfg share w))"
proof -
  let ?home = "filepath_Join [HomeDir cfg, Owner share]"
  let ?w1 = "snd (stat_IsNotExist ?home w)"
  let ?w2 = "snd (prepare_subdir ?home (SubPath share) ?w1)"
  let ?w3 = "snd (os_ReadFile (ConfigPath cfg) ?w2)"
  have ok1: "all_succeed ?w1" using ok by (simp add: stat_frame)
  note p = prepare_subdir_ok[OF ok1 sub, of ?home]
  have ok2: "all_succeed ?w2" using p by simp
  note r = os_ReadFile_ok[OF ok2, of "ConfigPath cfg"]
  have c3: "fst (os_ReadFile (ConfigPath cfg) ?w2) = Some content"
    using r(1) p content by (simp add: stat_frame)
  have n3: "now ?w3 = now w" using r(4) p by (simp add: stat_frame)
  have red: "CreateShare cfg share w =
     (case generate_share_name share content (now w) of
        Inl e \<Rightarrow> (Inl e, ?w3)
      | Inr shareName \<Rightarrow>
          (Inr shareName,
           snd (ReloadSambaConfig (snd (os_WriteFile (ConfigPath cfg)
                 (content @ buildShareConfig cfg shareName share) ?w3)))))"
    using v home p c3 n3 os_WriteFile_ok(1)[OF r(2)]
    by (simp add: CreateShare_def Let_def case_prod_beta split: sum.splits)
  show "fst (CreateShare cfg share w) = generate_share_name share content (now w)"
    unfolding red by (simp split: sum.splits)
  assume g: "generate_share_name share content (now w) = Inr shareName"
  note wr = os_WriteFile_ok[OF r(2), of "ConfigPath cfg"
              "content @ buildShareConfig cfg shareName share"]
  note rl = exec_Run_ok[OF wr(2), of "''smbcontrol''" "[''smbd'', ''reload-config'']"]
  show "files (snd (CreateShare cfg share w)) (ConfigPath cfg)
             = Some (content @ buildShareConfig cfg shareName share)
           \<and> (\<forall>p. p \<noteq> ConfigPath cfg \<longrightarrow> files (snd (CreateShare cfg share w)) p = files w p)
           \<and> all_succeed (snd (CreateShare cfg share w))
           \<and> dirs w \<subseteq> dirs (snd (CreateShare cfg share w))"
    unfolding red g using wr rl r p
    by (simp add: ReloadSambaConfig_def stat_frame)
qed

lemma buildShareConfig_starts:
  "\<exists>q. buildShareConfig cfg shareID share = [LF] @ ''['' @ shareID @ '']'' @ q"
  by (simp add: buildShareConfig_def buildShareConfigLines_def Let_def)

lemma Contains_after_create:
  "Contains (content @ buildShareConfig cfg shareID share) (''['' @ shareID @ '']'')"
proof -
  obtain q where "buildShareConfig cfg shareID share = [LF] @ ''['' @ shareID @ '']'' @ q"
    using buildShareConfig_starts by blast
  then have "content @ buildShareConfig cfg shareID share
               = (content @ [LF]) @ (''['' @ shareID @ '']'') @ q" by simp
  then show ?thesis unfolding Contains_iff by blast
qed

text \<open>
  Claim C4, as amended. Take a create-share request whose owner, name and shared-with
  list are valid, whose owner has a home directory and whose sub-path is accepted, and
  let no effect fail. With a name that is not empty the operation fails with the
  naming conflict exactly when the text \<open>[owner-share-name]\<close> occurs anywhere in the
  document, and returns the id \<open>owner-share-name\<close> otherwise. The text occurs
  whenever a line of the document, trimmed, is that header; and it occurs after a
  first creation, so that creating the same name again fails with the conflict. With
  an empty name the id is \<open>owner-share-\<close> followed by the current time as
  \<open>YYYYMMDDHHMMSS\<close>.
\<close>

theorem CreateShare_naming:
  assumes v: "isValidUsername (Owner share)" "isValidShareName (Han cfg) (Name share)"
      "validate_shared_with (SharedWith share) = None"
    and home: "\<not> fst (stat_IsNotExist (filepath_Join [HomeDir cfg, Owner share]) w)"
    and sub: "cleanSubPath (SubPath share) \<noteq> Inl PathTraversal"
    and ok: "all_succeed w"
    and content: "files w (ConfigPath cfg) = Some content"
  shows
    "(Name share \<noteq> [] \<longrightarrow>
        fst (CreateShare cfg share w) =
          (if Contains content (''['' @ Owner share @ ''-share-'' @ Name share @ '']'')
           then Inl (ShareNameExists (Name share))
           else Inr (Owner share @ ''-share-'' @ Name share)))
     \<and> (Name share = [] \<longrightarrow>
          fst (CreateShare cfg share w)
            = Inr (Owner share @ ''-share-'' @ format_timestamp (now w)))
     \<and> ((\<exists>l \<in> set (text_lines content).
            TrimSpace l = ''['' @ Owner share @ ''-share-'' @ Name share @ '']'') \<longrightarrow>
          Contains content (''['' @ Owner share @ ''-share-'' @ Name share @ '']''))
     \<and> (Name share \<noteq> []
          \<and> \<not> Contains content (''['' @ Owner share @ ''-share-'' @ Name share @ '']'') \<longrightarrow>
          fst (CreateShare cfg share (snd (CreateShare cfg share w)))
            = Inl (ShareNameExists (Name share)))"
proof (intro conjI impI)
  note red = CreateShare_reaches_name[OF v home sub ok content]
  show "fst (CreateShare cfg share w) =
          (if Contains content (''['' @ Owner share @ ''-share-'' @ Name share @ '']'')
           then Inl (ShareNameExists (Name share))
           else Inr (Owner share @ ''-share-'' @ Name share))" if "Name share \<noteq> []"
    using that by (simp add: red(1) generate_share_name_def Let_def)
  show "fst (CreateShare cfg share w)
            = Inr (Owner share @ ''-share-'' @ format_timestamp (now w))" if "Name share = []"
    using that by (simp add: red(1) generate_share_name_def)
  show "Contains content (''['' @ Owner share @ ''-share-'' @ Name share @ '']'')"
    if "\<exists>l \<in> set (text_lines content).
            TrimSpace l = ''['' @ Owner share @ ''-share-'' @ Name share @ '']''"
    using that header_line_Contains by blast
  show "fst (CreateShare cfg share (snd (CreateShare cfg share w)))
            = Inl (ShareNameExists (Name share))"
    if n: "Name share \<noteq> []
          \<and> \<not> Contains content (''['' @ Owner share @ ''-share-'' @ Name share @ '']'')"
  proof -
    let ?id = "Owner share @ ''-share-'' @ Name share"
    let ?w' = "snd (CreateShare cfg share w)"
    let ?content' = "content @ buildShareConfig cfg ?id share"
    have g: "generate_share_name share content (now w) = Inr ?id"
      using n by (simp add: generate_share_name_def Let_def)
    note after = red(2)[OF g]
    have home': "\<not> fst (stat_IsNotExist (filepath_Join [HomeDir cfg, Owner share]) ?w')"
    proof (cases "filepath_Join [HomeDir cfg, Owner share] = ConfigPath cfg")
      case True
      then show ?thesis using after by (simp add: stat_frame)
    next
      case False
      then have "files ?w' (filepath_Join [HomeDir cfg, Owner share])
                   = files w (filepath_Join [HomeDir cfg, Owner share])"
        using after by simp
      then show ?thesis using home after by (auto simp: stat_frame)
    qed
    have ok': "all_succeed ?w'" and content': "files ?w' (ConfigPath cfg) = Some ?content'"
      using after by simp_all
    have "fst (CreateShare cfg share ?w') = generate_share_name share ?content' (now ?w')"
      by (rule CreateShare_reaches_name(1)[OF v home' sub ok' content'])
    also have "\<dots> = Inl (ShareNameExists (Name share))"
      using n Contains_after_create[of content cfg ?id share]
      by (simp add: generate_share_name_def Let_def)
    finally show ?thesis .
  qed
qed

text \<open>
  The theorem for the share \<open>Docs\<close> of alice: the first creation returns
  \<open>alice-share-Docs\<close>, the second fails with the conflict.
\<close>

theorem CreateShare_naming_witness:
  "fst (CreateShare sample_config docs_share
          (world_with (unlines [''[global]'']) {''/home/samba/alice''} []))
     = Inr ''alice-share-Docs''
   \<and> fst (CreateShare sample_config docs_share
          (snd (CreateShare sample_config docs_share
                  (world_with (unlines [''[global]'']) {''/home/samba/alice''} []))))
     = Inl (ShareNameExists ''Docs'')"
proof -
  let ?w = "world_with (unlines [''[global]'']) {''/home/samba/alice''} []"
  have v: "isValidUsername (Owner docs_share)"
    "isValidShareName (Han sample_config) (Name docs_share)"
    "validate_shared_with (SharedWith docs_share) = None"
    by (simp_all add: docs_share_def validate_shared_with_def name_defs sample_config_def)
  have home:
    "\<not> fst (stat_IsNotExist (filepath_Join [HomeDir sample_config, Owner docs_share]) ?w)"
    by (simp add: docs_share_def world_defs path_defs text_defs)
  have sub: "cleanSubPath (SubPath docs_share) \<noteq> Inl PathTraversal"
    by (simp add: docs_share_def cleanSubPath_def)
  have ok: "all_succeed ?w" by (simp add: all_succeed_def world_with_def)
  have content: "files ?w (ConfigPath sample_config) = Some (unlines [''[global]''])"
    by (simp add: world_with_def sample_config_def)
  have n: "Name docs_share \<noteq> []"
    "\<not> Contains (unlines [''[global]''])
         (''['' @ Owner docs_share @ ''-share-'' @ Name docs_share @ '']'')"
    by (simp_all add: docs_share_def unlines_def HasPrefix_def)
  show ?thesis
    using CreateShare_naming[OF v home sub ok content] n by (simp add: docs_share_def)
qed

text \<open>
  The claim as it was stated fails for a document that mentions the id in a comment:
  the creation fails with the conflict although the document has no such section.
\<close>

theorem CreateShare_conflict_without_section:
  "fst (CreateShare sample_config docs_share
          (world_with (unlines [''[global]'', ''# [alice-share-Docs] was removed''])
             {''/home/samba/alice''} []))
     = Inl (ShareNameExists ''Docs'')
   \<and> \<not> has_section (unlines [''[global]'', ''# [alice-share-Docs] was removed''])
         ''alice-share-Docs''"
  by (simp add: CreateShare_def validate_shared_with_def prepare_subdir_def
        generate_share_name_def docs_share_def has_section_def
        scan_defs text_defs world_defs name_defs path_defs Let_def)

section \<open>Claim C5: replacing the whole file\<close>

text \<open>
  Claim C5: when the file is read, the backup and the new content are written, the
  validation of the new content fails and the write that restores the original content
  succeeds, \<open>UpdateSambaConfigFile\<close> returns the error of a failed validation and the
  configuration file holds what it held before the call.
\<close>

theorem UpdateSambaConfigFile_reverts:
  assumes "files w (smbConfPath cfg) = Some original"
    and "script w = Succeeds # Succeeds # Succeeds # Fails # rest"
    and "rest = [] \<or> hd rest = Succeeds"
  shows "fst (UpdateSambaConfigFile cfg newContent w) = Some ValidationFailedReverted
         \<and> files (snd (UpdateSambaConfigFile cfg newContent w)) (smbConfPath cfg)
             = Some original"
proof (cases rest)
  case Nil
  then show ?thesis using assms
    by (simp add: UpdateSambaConfigFile_def ValidateSambaConfig_def exec_Run_def
          os_ReadFile_def os_WriteFile_def os_Remove_def attempt_def Let_def
          split: list.splits)
next
  case (Cons out outs)
  then have "out = Succeeds" using assms(3) by simp
  then show ?thesis using assms Cons
    by (simp add: UpdateSambaConfigFile_def ValidateSambaConfig_def exec_Run_def
          os_ReadFile_def os_WriteFile_def os_Remove_def attempt_def Let_def
          split: list.splits)
qed

theorem UpdateSambaConfigFile_reverts_witness:
  "fst (UpdateSambaConfigFile sample_config ''[global''
          (world_with (unlines [''[global]'']) {}
             [Succeeds, Succeeds, Succeeds, Fails, Succeeds]))
     = Some ValidationFailedReverted
   \<and> files (snd (UpdateSambaConfigFile sample_config ''[global''
          (world_with (unlines [''[global]'']) {}
             [Succeeds, Succeeds, Succeeds, Fails, Succeeds])))
        (smbConfPath sample_config) = Some (unlines [''[global]''])"
proof -
  let ?w = "world_with (unlines [''[global]'']) {}
              [Succeeds, Succeeds, Succeeds, Fails, Succeeds]"
  have f: "files ?w (smbConfPath sample_config) = Some (unlines [''[global]''])"
    by (simp add: world_with_def smbConfPath_def sample_config_def)
  have s: "script ?w = Succeeds # Succeeds # Succeeds # Fails # [Succeeds]"
    by (simp add: world_with_def)
  have r: "[Succeeds] = [] \<or> hd [Succeeds] = Succeeds" by simp
  show ?thesis using UpdateSambaConfigFile_reverts[OF f s r] by simp
qed

section \<open>Claim C6: updating the global and homes sections\<close>

lemma update_step_emit:
  "update_step req (lines, sect) line
     = (lines @ [emit req sect line], next_section sect line)"
  by (simp add: update_step_def emit_def next_section_def requested_def Let_def
        split: option.splits prod.splits)

lemma foldl_update_step:
  "foldl (update_step req) (acc, sect) ls
     = (acc @ emits req sect ls, foldl next_section sect ls)"
  by (induction ls arbitrary: acc sect) (simp_all add: update_step_emit)

lemma update_lines_emits: "update_lines req ls = emits req [] ls"
  by (simp add: update_lines_def foldl_update_step)

lemma length_emits: "length (emits req sect ls) = length ls"
  by (induction ls arbitrary: sect) simp_all

lemma nth_emits:
  "i < length ls \<Longrightarrow>
     emits req sect ls ! i = emit req (foldl next_section sect (take i ls)) (ls ! i)"
proof (induction ls arbitrary: i sect)
  case Nil
  then show ?case by simp
next
  case (Cons l ls)
  then show ?case by (cases i) simp_all
qed

lemma getGlobalValue_Some: "getGlobalValue g key = Some newValue \<Longrightarrow> newValue \<noteq> []"
  unfolding getGlobalValue_def by (simp add: non_empty_def split: if_splits)

lemma getHomesValue_Some: "getHomesValue h key = Some newValue \<Longrightarrow> newValue \<noteq> []"
  unfolding getHomesValue_def by (simp add: non_empty_def split: if_splits)

lemma requested_Some:
  "requested req sect key = Some newValue \<Longrightarrow>
     newValue \<noteq> [] \<and> (sect = ''global'' \<or> sect = ''homes'')"
  unfolding requested_def
  by (simp split: if_splits option.splits add: getGlobalValue_Some getHomesValue_Some)

lemma emit_cases:
  "emit req sect line = line
   \<or> (\<exists>k v newValue.
        \<not> is_header (TrimSpace line) \<and> SplitN2 (TrimSpace line) = Some (k, v)
        \<and> requested req sect (ToLower (remove_spaces (TrimSpace k))) = Some newValue
        \<and> emit req sect line = ''   '' @ TrimSpace k @ '' = '' @ newValue)"
  by (auto simp: emit_def Let_def split: option.splits)

lemma UpdateSambaConfig_success:
  assumes "fst (UpdateSambaConfig cfg req w) = None"
  shows "\<exists>content ls. files w (smbConfPath cfg) = Some content \<and> ScanLines content = Some ls
           \<and> files (snd (UpdateSambaConfig cfg req w)) (smbConfPath cfg)
               = Some (Join (update_lines req ls) [LF] @ [LF])"
proof -
  obtain opened w1 where o: "os_Open (smbConfPath cfg) w = (opened, w1)" by fastforce
  have op: "opened" using assms o by (cases opened) (simp_all add: UpdateSambaConfig_def)
  obtain r w2 where rd: "os_ReadFile (smbConfPath cfg) w1 = (r, w2)" by fastforce
  obtain content where c: "r = Some content"
    using assms o op rd by (cases r) (simp_all add: UpdateSambaConfig_def)
  obtain ls where l: "ScanLines content = Some ls"
    using assms o op rd c by (cases "ScanLines content") (simp_all add: UpdateSambaConfig_def)
  obtain ok w3 where wr:
    "os_WriteFile (smbConfPath cfg) (Join (update_lines req ls) [LF] @ [LF]) w2 = (ok, w3)"
    by fastforce
  have okT: "ok"
    using assms o op rd c l wr by (cases ok) (simp_all add: UpdateSambaConfig_def)
  have res: "snd (UpdateSambaConfig cfg req w) = snd (ReloadSambaConfig w3)"
    using o op rd c l wr okT by (simp add: UpdateSambaConfig_def)
  have f1: "files w1 = files w"
    using os_Open_True[of "smbConfPath cfg" w w1] o op by simp
  have f2: "files w1 (smbConfPath cfg) = Some content" "files w2 = files w1"
    using os_ReadFile_Some[of "smbConfPath cfg" w1 content w2] rd c by simp_all
  have f3: "files w3 = (files w2)(smbConfPath cfg \<mapsto> Join (update_lines req ls) [LF] @ [LF])"
    using os_WriteFile_True[of "smbConfPath cfg" _ w2 w3] wr okT by simp
  show ?thesis using res f1 f2 f3 l by (simp add: Reload_frame)
qed

lemma getGlobalValue_in:
  "getGlobalValue g key = Some v \<Longrightarrow>
     v \<in> {Workgroup g, ServerString g, Security g, PassdbBackend g, MapToGuest g,
          AccessBasedShareEnum g}"
  unfolding getGlobalValue_def by (simp add: non_empty_def split: if_splits)

lemma getHomesValue_in:
  "getHomesValue h key = Some v \<Longrightarrow>
     v \<in> {h_Comment h, Browseable h, Writable h, ValidUsers h, ForceUser h, ForceGroup h,
          CreateMask h, DirectoryMask h}"
  unfolding getHomesValue_def by (simp add: non_empty_def split: if_splits)

lemma requested_in_values:
  "requested req sect key = Some v \<Longrightarrow> v \<in> set (request_values req)"
  unfolding requested_def request_values_def
  using getGlobalValue_in getHomesValue_in
  by (fastforce split: if_splits option.splits)

lemma emit_no_LF:
  assumes "\<forall>v\<in>set (request_values req). LF \<notin> set v" "LF \<notin> set line"
  shows "LF \<notin> set (emit req sect line)"
proof -
  from emit_cases[of req sect line]
  consider "emit req sect line = line"
    | k v newValue where "SplitN2 (TrimSpace line) = Some (k, v)"
        "requested req sect (ToLower (remove_spaces (TrimSpace k))) = Some newValue"
        "emit req sect line = ''   '' @ TrimSpace k @ '' = '' @ newValue"
    by blast
  then show ?thesis
  proof cases
    case 1
    then show ?thesis using assms by simp
  next
    case 2
    have "set (TrimSpace k) \<subseteq> set line"
      using SplitN2_key_subset[OF 2(1)] TrimSpace_subset[of k] TrimSpace_subset[of line]
      by blast
    moreover have "LF \<notin> set newValue" using requested_in_values[OF 2(2)] assms(1) by blast
    ultimately show ?thesis using 2(3) assms(2) by auto
  qed
qed

lemma emits_no_LF:
  assumes "\<forall>v\<in>set (request_values req). LF \<notin> set v"
  shows "\<forall>l\<in>set ls. LF \<notin> set l \<Longrightarrow> \<forall>l\<in>set (emits req sect ls). LF \<notin> set l"
  by (induction ls arbitrary: sect) (simp_all add: emit_no_LF[OF assms])

lemma written_lines:
  assumes "\<forall>v\<in>set (request_values req). LF \<notin> set v" "ScanLines content = Some ls" "ls \<noteq> []"
  shows "split_on LF (Join (update_lines req ls) [LF] @ [LF]) = update_lines req ls @ [[]]"
proof -
  have "\<forall>l\<in>set ls. LF \<notin> set l" using ScanLines_no_LF[OF assms(2)] by blast
  then have "\<forall>l\<in>set (update_lines req ls). LF \<notin> set l"
    using emits_no_LF[OF assms(1)] by (simp add: update_lines_emits)
  moreover have "update_lines req ls \<noteq> []"
    using assms(3) length_emits[of req "[]" ls] by (auto simp: update_lines_emits)
  ultimately show ?thesis by (rule split_on_Join[rotated])
qed

lemma written_tokens:
  assumes "\<forall>v\<in>set (request_values req). LF \<notin> set v" "ScanLines content = Some ls" "ls \<noteq> []"
  shows "scan_tokens (Join (update_lines req ls) [LF] @ [LF]) = update_lines req ls"
  using written_lines[OF assms] by (simp add: scan_tokens_def)

text \<open>
  Claim C6, as amended: the loop of \<open>UpdateSambaConfig\<close> emits one string for each
  line it reads, at the same position. The string is the line read, unless the line is
  a \<open>key = value\<close> line of the global or the homes section and the request has a value
  for that key (a known key whose field of the request is present and not empty); it is
  then the original key with the requested value. A call that succeeds writes the
  strings emitted, each followed by a line feed; for a file without lines that is a
  single line feed. When the file has a line and no value of the request holds a line
  feed, the file written, cut at its line feeds, consists of exactly the strings
  emitted: it has one line for each line read, no key is inserted, and comments, blank
  lines, keys without a requested value and the lines of every other section are
  written as the scanner read them.
\<close>

theorem UpdateSambaConfig_frame:
  "length (update_lines req ls) = length ls
   \<and> (\<forall>i<length ls.
         update_lines req ls ! i = ls ! i
         \<or> (\<exists>k v newValue.
               \<not> is_header (TrimSpace (ls ! i))
               \<and> SplitN2 (TrimSpace (ls ! i)) = Some (k, v)
               \<and> (section_at ls i = ''global'' \<or> section_at ls i = ''homes'')
               \<and> requested req (section_at ls i) (ToLower (remove_spaces (TrimSpace k)))
                    = Some newValue
               \<and> newValue \<noteq> []
               \<and> update_lines req ls ! i = ''   '' @ TrimSpace k @ '' = '' @ newValue))
   \<and> (fst (UpdateSambaConfig cfg req w) = None \<longrightarrow>
        (\<exists>content ls'.
            files w (smbConfPath cfg) = Some content \<and> ScanLines content = Some ls'
            \<and> files (snd (UpdateSambaConfig cfg req w)) (smbConfPath cfg)
                 = Some (Join (update_lines req ls') [LF] @ [LF])
            \<and> (ls' = [] \<longrightarrow> Join (update_lines req ls') [LF] @ [LF] = [LF])
            \<and> (ls' \<noteq> [] \<and> (\<forall>v\<in>set (request_values req). LF \<notin> set v) \<longrightarrow>
                  scan_tokens (Join (update_lines req ls') [LF] @ [LF])
                    = update_lines req ls')))"
proof (intro conjI allI impI)
  show "length (update_lines req ls) = length ls"
    by (simp add: update_lines_emits length_emits)
next
  fix i assume i: "i < length ls"
  have n: "update_lines req ls ! i = emit req (section_at ls i) (ls ! i)"
    using i by (simp add: update_lines_emits nth_emits section_at_def)
  show "update_lines req ls ! i = ls ! i
         \<or> (\<exists>k v newValue.
               \<not> is_header (TrimSpace (ls ! i))
               \<and> SplitN2 (TrimSpace (ls ! i)) = Some (k, v)
               \<and> (section_at ls i = ''global'' \<or> section_at ls i = ''homes'')
               \<and> requested req (section_at ls i) (ToLower (remove_spaces (TrimSpace k)))
                    = Some newValue
               \<and> newValue \<noteq> []
               \<and> update_lines req ls ! i = ''   '' @ TrimSpace k @ '' = '' @ newValue)"
  proof -
    from emit_cases[of req "section_at ls i" "ls ! i"]
    consider "emit req (section_at ls i) (ls ! i) = ls ! i"
      | k v newValue where "\<not> is_header (TrimSpace (ls ! i))"
          "SplitN2 (TrimSpace (ls ! i)) = Some (k, v)"
          "requested req (section_at ls i) (ToLower (remove_spaces (TrimSpace k)))
             = Some newValue"
          "emit req (section_at ls i) (ls ! i) = ''   '' @ TrimSpace k @ '' = '' @ newValue"
      by blast
    then show ?thesis
    proof cases
      case 1
      then show ?thesis using n by simp
    next
      case 2
      from requested_Some[OF 2(3)] have "newValue \<noteq> []"
        "section_at ls i = ''global'' \<or> section_at ls i = ''homes''" by simp_all
      with 2 n show ?thesis by auto
    qed
  qed
next
  assume "fst (UpdateSambaConfig cfg req w) = None"
  then obtain content ls' where c: "files w (smbConfPath cfg) = Some content"
    "ScanLines content = Some ls'"
    "files (snd (UpdateSambaConfig cfg req w)) (smbConfPath cfg)
       = Some (Join (update_lines req ls') [LF] @ [LF])"
    using UpdateSambaConfig_success by blast
  have e: "ls' = [] \<longrightarrow> Join (update_lines req ls') [LF] @ [LF] = [LF]"
    by (simp add: update_lines_emits)
  have t: "ls' \<noteq> [] \<and> (\<forall>v\<in>set (request_values req). LF \<notin> set v) \<longrightarrow>
             scan_tokens (Join (update_lines req ls') [LF] @ [LF]) = update_lines req ls'"
    using written_tokens[OF _ c(2)] by blast
  show "\<exists>content ls'.
            files w (smbConfPath cfg) = Some content \<and> ScanLines content = Some ls'
            \<and> files (snd (UpdateSambaConfig cfg req w)) (smbConfPath cfg)
                 = Some (Join (update_lines req ls') [LF] @ [LF])
            \<and> (ls' = [] \<longrightarrow> Join (update_lines req ls') [LF] @ [LF] = [LF])
            \<and> (ls' \<noteq> [] \<and> (\<forall>v\<in>set (request_values req). LF \<notin> set v) \<longrightarrow>
                  scan_tokens (Join (update_lines req ls') [LF] @ [LF])
                    = update_lines req ls')"
    using c e t by blast
qed

text \<open>
  The theorem for a request that sets the workgroup, on a document with a comment and
  a key the request does not name.
\<close>

theorem UpdateSambaConfig_frame_witness:
  "fst (UpdateSambaConfig sample_config sample_request
          (world_with (unlines [''[global]'', ''   workgroup = WG'', ''# note'',
                                ''   security = user'']) {} [])) = None
   \<and> (\<exists>new.
         files (snd (UpdateSambaConfig sample_config sample_request
                     (world_with (unlines [''[global]'', ''   workgroup = WG'', ''# note'',
                                           ''   security = user'']) {} [])))
             (smbConfPath sample_config) = Some new
         \<and> scan_tokens new
             = update_lines sample_request
                 [''[global]'', ''   workgroup = WG'', ''# note'', ''   security = user''])
   \<and> length (update_lines sample_request
               [''[global]'', ''   workgroup = WG'', ''# note'', ''   security = user''])
       = length [''[global]'', ''   workgroup = WG'', ''# note'', ''   security = user'']"
proof -
  let ?ls = "[''[global]'', ''   workgroup = WG'', ''# note'', ''   security = user'']"
  let ?w = "world_with (unlines ?ls) {} []"
  have h: "fst (UpdateSambaConfig sample_config sample_request ?w) = None"
    by (simp add: UpdateSambaConfig_def smbConfPath_def scan_defs world_defs
          case_prod_beta)
  have f: "files ?w (smbConfPath sample_config) = Some (unlines ?ls)"
    by (simp add: world_with_def sample_config_def smbConfPath_def)
  have s: "ScanLines (unlines ?ls) = Some ?ls"
    by (simp add: scan_defs unlines_def)
  have p: "\<forall>v\<in>set (request_values sample_request). LF \<notin> set v"
    by (simp add: request_values_def sample_request_def)
  note t = UpdateSambaConfig_frame[of sample_request ?ls sample_config ?w]
  from t h obtain content ls' where c: "files ?w (smbConfPath sample_config) = Some content"
    "ScanLines content = Some ls'"
    "files (snd (UpdateSambaConfig sample_config sample_request ?w)) (smbConfPath sample_config)
       = Some (Join (update_lines sample_request ls') [LF] @ [LF])"
    "ls' \<noteq> [] \<and> (\<forall>v\<in>set (request_values sample_request). LF \<notin> set v) \<longrightarrow>
       scan_tokens (Join (update_lines sample_request ls') [LF] @ [LF])
         = update_lines sample_request ls'"
    by auto
  have "content = unlines ?ls" using c(1) f by simp
  then have l: "ls' = ?ls" using c(2) s by simp
  have "scan_tokens (Join (update_lines sample_request ?ls) [LF] @ [LF])
          = update_lines sample_request ?ls"
    using c(4) p unfolding l by simp
  then have "\<exists>new.
         files (snd (UpdateSambaConfig sample_config sample_request ?w))
             (smbConfPath sample_config) = Some new
         \<and> scan_tokens new = update_lines sample_request ?ls"
    using c(3) unfolding l by blast
  then show ?thesis using h t by blast
qed

text \<open>
  The claim as it was stated fails for a requested value that holds line feeds: the
  value is copied into its line as it is, and the file of two lines becomes a file of
  five lines, with a key of the global section and a section that it did not have.
\<close>

theorem UpdateSambaConfig_inserts_lines:
  "fst (UpdateSambaConfig sample_config injecting_request
          (world_with (unlines [''[global]'', ''   workgroup = WG'']) {} [])) = None
   \<and> files (snd (UpdateSambaConfig sample_config injecting_request
          (world_with (unlines [''[global]'', ''   workgroup = WG'']) {} [])))
        (smbConfPath sample_config)
      = Some (unlines [''[global]'', ''   workgroup = NEW'', ''   guest ok = yes'', ''[evil]'',
                       ''   path = /''])
   \<and> has_section (unlines [''[global]'', ''   workgroup = NEW'', ''   guest ok = yes'',
                            ''[evil]'', ''   path = /'']) ''evil''
   \<and> \<not> has_section (unlines [''[global]'', ''   workgroup = WG'']) ''evil''"
  by (simp add: UpdateSambaConfig_def smbConfPath_def scan_defs world_defs
          case_prod_beta update_lines_def update_step_def text_defs getGlobalValue_def
          non_empty_def injecting_request_def has_section_def)

section \<open>Claim C7: creating a user\<close>

text \<open>
  Claim C7 says that a failure of the last step of \<open>CreateUser\<close>, enabling the
  account, removes the account and then the home directory. When every step but the
  last succeeds, the code runs \<open>userdel\<close> and returns: the home directory it created
  is still there. When the step before (the wait for \<open>smbpasswd -a\<close>) fails, the code
  runs \<open>userdel\<close> and removes the directory.
\<close>

theorem CreateUser_enable_failure_keeps_home:
  "fst (CreateUser sample_config \<lparr>Username = ''dave'', Password = ''secret''\<rparr>
          (world_with [] {''/home/samba''} (replicate 8 Succeeds @ [Fails])))
     = Some EnableFailed
   \<and> ''/home/samba/dave'' \<in> dirs (snd (CreateUser sample_config
          \<lparr>Username = ''dave'', Password = ''secret''\<rparr>
          (world_with [] {''/home/samba''} (replicate 8 Succeeds @ [Fails]))))
   \<and> drop 8 (trace (snd (CreateUser sample_config
          \<lparr>Username = ''dave'', Password = ''secret''\<rparr>
          (world_with [] {''/home/samba''} (replicate 8 Succeeds @ [Fails])))))
     = [Run ''smbpasswd'' [''-e'', ''dave''], Run ''userdel'' [''--extrausers'', ''dave'']]
   \<and> fst (CreateUser sample_config \<lparr>Username = ''dave'', Password = ''secret''\<rparr>
          (world_with [] {''/home/samba''} (replicate 7 Succeeds @ [Fails])))
     = Some CreateSambaUserFailed
   \<and> ''/home/samba/dave'' \<notin> dirs (snd (CreateUser sample_config
          \<lparr>Username = ''dave'', Password = ''secret''\<rparr>
          (world_with [] {''/home/samba''} (replicate 7 Succeeds @ [Fails]))))
   \<and> drop 7 (trace (snd (CreateUser sample_config
          \<lparr>Username = ''dave'', Password = ''secret''\<rparr>
          (world_with [] {''/home/samba''} (replicate 7 Succeeds @ [Fails])))))
     = [Wait ''smbpasswd'' [''-a'', ''-s'', ''dave''],
        Run ''userdel'' [''--extrausers'', ''dave''], RemoveAll ''/home/samba/dave'']"
  by (simp add: op_defs world_defs name_defs path_defs text_defs Let_def numeral_eq_Suc)

theorem CreateUser_enable_failure_keeps_home_witness:
  "''/home/samba/dave'' \<in> dirs (snd (CreateUser sample_config
          \<lparr>Username = ''dave'', Password = ''secret''\<rparr>
          (world_with [] {''/home/samba''} (replicate 8 Succeeds @ [Fails]))))"
  using CreateUser_enable_failure_keeps_home by blast

section \<open>Claim C8: a share that does not exist\<close>

text \<open>
  Claim C8 says that \<open>UpdateShare\<close> and \<open>DeleteShare\<close> fail with a not-found error,
  and leave the file as it is, when the document has no section of that name. For a
  document of two lines, each ended by a line feed, that has no section
  \<open>bob-share-x\<close>: \<open>DeleteShare\<close> returns no error and writes the file without its
  last line feed, and \<open>UpdateShare\<close>, which has no such check, returns no error and
  writes the file as well.
\<close>

theorem DeleteShare_UpdateShare_missing_section:
  "\<not> has_section (unlines [''[global]'', ''   workgroup = WG'']) ''bob-share-x''
   \<and> fst (DeleteShare sample_config ''bob-share-x''
          (world_with (unlines [''[global]'', ''   workgroup = WG'']) {''/home/samba''} []))
     = None
   \<and> files (snd (DeleteShare sample_config ''bob-share-x''
          (world_with (unlines [''[global]'', ''   workgroup = WG'']) {''/home/samba''} [])))
        ''/etc/samba/smb.conf'' = Some (''[global]'' @ [LF] @ ''   workgroup = WG'')
   \<and> fst (UpdateShare sample_config ''bob-share-x''
            \<lparr>Name = [], Owner = [], SharedWith = [''carol''], ReadOnly = False,
             Comment = [], SubPath = []\<rparr>
            (world_with (unlines [''[global]'', ''   workgroup = WG'']) {''/home/samba''} []))
     = None
   \<and> trace (snd (UpdateShare sample_config ''bob-share-x''
            \<lparr>Name = [], Owner = [], SharedWith = [''carol''], ReadOnly = False,
             Comment = [], SubPath = []\<rparr>
            (world_with (unlines [''[global]'', ''   workgroup = WG'']) {''/home/samba''} [])))
     = [Stat ''/home/samba'', ReadFile ''/etc/samba/smb.conf'',
        WriteFile ''/etc/samba/smb.conf'' (''[global]'' @ [LF] @ ''   workgroup = WG''),
        Run ''smbcontrol'' [''smbd'', ''reload-config'']]"
  by (simp add: op_defs has_section_def share_defs scan_defs text_defs world_defs name_defs
        path_defs Let_def)

theorem DeleteShare_UpdateShare_missing_section_witness:
  "fst (DeleteShare sample_config ''bob-share-x''
          (world_with (unlines [''[global]'', ''   workgroup = WG'']) {''/home/samba''} []))
     \<noteq> Some (ShareNotFound ''bob-share-x'')
   \<and> fst (UpdateShare sample_config ''bob-share-x''
            \<lparr>Name = [], Owner = [], SharedWith = [''carol''], ReadOnly = False,
             Comment = [], SubPath = []\<rparr>
            (world_with (unlines [''[global]'', ''   workgroup = WG'']) {''/home/samba''} []))
     \<noteq> Some (ShareNotFound ''bob-share-x'')"
  using DeleteShare_UpdateShare_missing_section by simp

section \<open>Claim C9: names that reach processes and paths\<close>

text \<open>
  Claim C9 says that every username is validated before it reaches an external process
  or a path, in particular in the deletion of a user. \<open>DeleteUser\<close> does not call
  \<open>isValidUsername\<close>: for the name \<open>..\<close>, which is not a valid username, it runs
  \<open>smbpasswd -x\<close> and \<open>userdel\<close> with that name and removes the directory
  \<open>/home\<close>, the parent of the home root \<open>/home/samba\<close>.
\<close>

theorem DeleteUser_unvalidated_username:
  "\<not> isValidUsername ''..''
   \<and> fst (DeleteUser sample_config ''..'' True
          (world_with (unlines [''[global]'']) {''/home/samba'', ''/home/samba/bob''} []))
     = None
   \<and> trace (snd (DeleteUser sample_config ''..'' True
          (world_with (unlines [''[global]'']) {''/home/samba'', ''/home/samba/bob''} [])))
     = [ReadFile ''/etc/samba/smb.conf'', Run ''smbpasswd'' [''-x'', ''..''],
        Run ''userdel'' [''--extrausers'', ''..''], RemoveAll ''/home'',
        Run ''smbcontrol'' [''smbd'', ''reload-config'']]
   \<and> ''/home/samba/bob'' \<notin> dirs (snd (DeleteUser sample_config ''..'' True
          (world_with (unlines [''[global]'']) {''/home/samba'', ''/home/samba/bob''} [])))"
  by (simp add: op_defs share_defs scan_defs text_defs world_defs name_defs path_defs Let_def)

theorem DeleteUser_unvalidated_username_witness:
  "RemoveAll ''/home'' \<in> set (trace (snd (DeleteUser sample_config ''..'' True
          (world_with (unlines [''[global]'']) {''/home/samba'', ''/home/samba/bob''} []))))"
  using DeleteUser_unvalidated_username by simp

section \<open>Claim C10: a share with nobody to share with\<close>














lemma fields_from_nonempty: "cur \<noteq> [] \<Longrightarrow> fields_from cur s \<noteq> []"
  by (induction cur s rule: fields_from.induct) auto


























end
